theory Spec2Isabelle
  imports Main "HOL-Library.Sublist" "HOL-Library.AList"
begin

section \<open>JavaScript strings\<close>

text \<open>
  A JavaScript string is a sequence of UTF-16 code units. Every character of the
  source's string literals lies in the Basic Multilingual Plane, so each is one
  code unit; a string is modelled as the list of its code units. The Arabic
  letters are named after their Unicode character names.
\<close>

type_synonym jsstring = "nat list"

abbreviation YEH_HAMZA :: nat where "YEH_HAMZA \<equiv> 0x626"
abbreviation ALEF :: nat where "ALEF \<equiv> 0x627"
abbreviation BEH :: nat where "BEH \<equiv> 0x628"
abbreviation TEH_MARBUTA :: nat where "TEH_MARBUTA \<equiv> 0x629"
abbreviation TEH :: nat where "TEH \<equiv> 0x62A"
abbreviation HAH :: nat where "HAH \<equiv> 0x62D"
abbreviation DAL :: nat where "DAL \<equiv> 0x62F"
abbreviation REH :: nat where "REH \<equiv> 0x631"
abbreviation SEEN :: nat where "SEEN \<equiv> 0x633"
abbreviation SHEEN :: nat where "SHEEN \<equiv> 0x634"
abbreviation DAD :: nat where "DAD \<equiv> 0x636"
abbreviation AIN :: nat where "AIN \<equiv> 0x639"
abbreviation QAF :: nat where "QAF \<equiv> 0x642"
abbreviation KAF :: nat where "KAF \<equiv> 0x643"
abbreviation LAM :: nat where "LAM \<equiv> 0x644"
abbreviation MEEM :: nat where "MEEM \<equiv> 0x645"
abbreviation NOON :: nat where "NOON \<equiv> 0x646"
abbreviation WAW :: nat where "WAW \<equiv> 0x648"
abbreviation ALEF_MAKSURA :: nat where "ALEF_MAKSURA \<equiv> 0x649"
abbreviation YEH :: nat where "YEH \<equiv> 0x64A"

text \<open>The ASCII characters the code handles one at a time.\<close>

abbreviation SP :: nat where "SP \<equiv> 0x20"
abbreviation DOLLAR :: nat where "DOLLAR \<equiv> 0x24"
abbreviation AMPERSAND :: nat where "AMPERSAND \<equiv> 0x26"
abbreviation APOSTROPHE :: nat where "APOSTROPHE \<equiv> 0x27"
abbreviation BACKTICK :: nat where "BACKTICK \<equiv> 0x60"
abbreviation UNDERSCORE :: nat where "UNDERSCORE \<equiv> 0x5F"

text \<open>An ASCII literal of the source, as code units.\<close>

definition ascii :: "string \<Rightarrow> jsstring" where
  "ascii cs = map of_char cs"

text \<open>
  \<^verbatim>\<open>String.prototype.trim\<close> removes the code units of WhiteSpace and LineTerminator
  from both ends.
\<close>

definition isWhiteSpace :: "nat \<Rightarrow> bool" where
  "isWhiteSpace c \<longleftrightarrow>
     c \<in> set [0x9, 0xA, 0xB, 0xC, 0xD, 0x20, 0xA0, 0x1680,
              0x2000, 0x2001, 0x2002, 0x2003, 0x2004, 0x2005, 0x2006, 0x2007,
              0x2008, 0x2009, 0x200A, 0x2028, 0x2029, 0x202F, 0x205F, 0x3000, 0xFEFF]"

definition trim :: "jsstring \<Rightarrow> jsstring" where
  "trim s = rev (dropWhile isWhiteSpace (rev (dropWhile isWhiteSpace s)))"

text \<open>\<^verbatim>\<open>s.includes(sub)\<close>: \<^verbatim>\<open>sub\<close> occurs in \<^verbatim>\<open>s\<close> as a contiguous run.\<close>

fun includes_str :: "jsstring \<Rightarrow> jsstring \<Rightarrow> bool" where
  "includes_str [] sub = (sub = [])"
| "includes_str (c # cs) sub = (prefix sub (c # cs) \<or> includes_str cs sub)"

text \<open>\<^verbatim>\<open>s.endsWith(suf)\<close>.\<close>

definition endsWith :: "jsstring \<Rightarrow> jsstring \<Rightarrow> bool" where
  "endsWith s suf \<longleftrightarrow> suffix suf s"

text \<open>\<^verbatim>\<open>s.split(' ')[0]\<close>: the text before the first space (all of it when there is none).\<close>

definition firstToken :: "jsstring \<Rightarrow> jsstring" where
  "firstToken s = takeWhile (\<lambda>c. c \<noteq> SP) s"

text \<open>\<^verbatim>\<open>xs.join(sep)\<close> over elements already turned into strings.\<close>

fun join :: "jsstring \<Rightarrow> jsstring list \<Rightarrow> jsstring" where
  "join sep [] = []"
| "join sep [x] = x"
| "join sep (x # y # ys) = x @ sep @ join sep (y # ys)"

text \<open>
  \<^verbatim>\<open>s.replace(pat, rep)\<close> with a string pattern replaces the first occurrence of
  \<^verbatim>\<open>pat\<close>. The replacement text is not taken literally: \<^verbatim>\<open>$$\<close> stands for a dollar
  sign, \<^verbatim>\<open>$&\<close> for the matched text, \<^verbatim>\<open>$`\<close> for the text before the match and
  \<^verbatim>\<open>$'\<close> for the text after it; with a string pattern there are no capture groups,
  so every other \<^verbatim>\<open>$\<close> stays as it is.
\<close>

fun indexOfSplit :: "jsstring \<Rightarrow> jsstring \<Rightarrow> (jsstring \<times> jsstring) option" where
  "indexOfSplit pat [] = (if pat = [] then Some ([], []) else None)"
| "indexOfSplit pat (c # cs) =
     (if prefix pat (c # cs) then Some ([], drop (length pat) (c # cs))
      else map_option (\<lambda>(pre, post). (c # pre, post)) (indexOfSplit pat cs))"

fun getSubstitution :: "jsstring \<Rightarrow> jsstring \<Rightarrow> jsstring \<Rightarrow> jsstring \<Rightarrow> jsstring" where
  "getSubstitution matched pre post [] = []"
| "getSubstitution matched pre post [c] = [c]"
| "getSubstitution matched pre post (c # d # rest) =
     (if c = DOLLAR \<and> d = DOLLAR then DOLLAR # getSubstitution matched pre post rest
      else if c = DOLLAR \<and> d = AMPERSAND then matched @ getSubstitution matched pre post rest
      else if c = DOLLAR \<and> d = BACKTICK then pre @ getSubstitution matched pre post rest
      else if c = DOLLAR \<and> d = APOSTROPHE then post @ getSubstitution matched pre post rest
      else c # getSubstitution matched pre post (d # rest))"

definition replace_str :: "jsstring \<Rightarrow> jsstring \<Rightarrow> jsstring \<Rightarrow> jsstring" where
  "replace_str s pat rep =
     (case indexOfSplit pat s of
        None \<Rightarrow> s
      | Some (pre, post) \<Rightarrow> pre @ getSubstitution pat pre post rep @ post)"

section \<open>Objects used as dictionaries\<close>

text \<open>
  \<^verbatim>\<open>jobTitleGrammar\<close> and the accumulator of the grouping pass are plain objects
  (\<^verbatim>\<open>{...}\<close>), so \<^verbatim>\<open>obj[k]\<close> looks \<^verbatim>\<open>k\<close> up among the object's own properties and
  then on \<^verbatim>\<open>Object.prototype\<close>. The own properties are kept in insertion order, the
  order in which \<^verbatim>\<open>for (const key in obj)\<close> visits them (no key here is an array
  index). Every property of \<^verbatim>\<open>Object.prototype\<close> is a function, or, for
  \<^verbatim>\<open>__proto__\<close>, the prototype object itself: a truthy value without the fields the
  code reads from an entry. None of them is enumerable.
\<close>

definition objectPrototypeNames :: "jsstring list" where
  "objectPrototypeNames =
     [ascii ''constructor'', ascii ''hasOwnProperty'', ascii ''isPrototypeOf'',
      ascii ''propertyIsEnumerable'', ascii ''toLocaleString'', ascii ''toString'',
      ascii ''valueOf'', ascii ''__proto__'', ascii ''__defineGetter__'',
      ascii ''__defineSetter__'', ascii ''__lookupGetter__'', ascii ''__lookupSetter__'']"

datatype 'a property = Own 'a | Inherited | Absent

definition getProp :: "(jsstring \<times> 'a) list \<Rightarrow> jsstring \<Rightarrow> 'a property" where
  "getProp obj k =
     (case map_of obj k of
        Some v \<Rightarrow> Own v
      | None \<Rightarrow> if k \<in> set objectPrototypeNames then Inherited else Absent)"

text \<open>\<^verbatim>\<open>if (obj[k])\<close>: an entry and an inherited property are truthy, \<^verbatim>\<open>undefined\<close> is not.\<close>

definition truthy :: "'a property \<Rightarrow> bool" where
  "truthy v \<longleftrightarrow> v \<noteq> Absent"

section \<open>The grammar dictionary\<close>

record forms =
  form_s :: jsstring
  form_d :: jsstring
  form_p :: jsstring

record grammar =
  gram_m :: forms
  gram_f :: forms

definition jobTitleGrammar :: "(jsstring \<times> grammar) list" where
  "jobTitleGrammar = [
  ([QAF, ALEF, DAD, YEH],
    \<lparr>gram_m = \<lparr>form_s = [ALEF, LAM, QAF, ALEF, DAD, YEH, SP, BEH],
                form_d = [ALEF, LAM, QAF, ALEF, DAD, YEH, YEH, NOON, SP, BEH],
                form_p = [ALEF, LAM, QAF, DAD, ALEF, TEH_MARBUTA, SP, BEH]\<rparr>,
     gram_f = \<lparr>form_s = [ALEF, LAM, QAF, ALEF, DAD, YEH, TEH_MARBUTA, SP, BEH],
                form_d = [ALEF, LAM, QAF, ALEF, DAD, YEH, TEH, YEH, NOON, SP, BEH],
                form_p = [ALEF, LAM, QAF, ALEF, DAD, YEH, ALEF, TEH, SP, BEH]\<rparr>\<rparr>),
  ([MEEM, SEEN, TEH, SHEEN, ALEF, REH],
    \<lparr>gram_m = \<lparr>form_s = [ALEF, LAM, MEEM, SEEN, TEH, SHEEN, ALEF, REH, SP, BEH],
                form_d = [ALEF, LAM, MEEM, SEEN, TEH, SHEEN, ALEF, REH, YEH, NOON, SP, BEH],
                form_p = [ALEF, LAM, MEEM, SEEN, TEH, SHEEN, ALEF, REH, WAW, NOON, SP, BEH]\<rparr>,
     gram_f = \<lparr>form_s = [ALEF, LAM, MEEM, SEEN, TEH, SHEEN, ALEF, REH, TEH_MARBUTA, SP, BEH],
                form_d = [ALEF, LAM, MEEM, SEEN, TEH, SHEEN, ALEF, REH, TEH, YEH, NOON, SP, BEH],
                form_p = [ALEF, LAM, MEEM, SEEN, TEH, SHEEN, ALEF, REH, ALEF, TEH, SP, BEH]\<rparr>\<rparr>),
  ([MEEM, HAH, ALEF, MEEM, SP, AIN, ALEF, MEEM],
    \<lparr>gram_m = \<lparr>form_s = [MEEM, HAH, ALEF, MEEM, SP, AIN, ALEF, MEEM],
                form_d = [MEEM, HAH, ALEF, MEEM, YEH, ALEF, NOON, SP, AIN, ALEF, MEEM, ALEF, NOON],
                form_p = [MEEM, HAH, ALEF, MEEM, WAW, NOON, SP, AIN, ALEF, MEEM, WAW, NOON]\<rparr>,
     gram_f = \<lparr>form_s = [MEEM, HAH, ALEF, MEEM, YEH, TEH_MARBUTA, SP, AIN, ALEF, MEEM, TEH_MARBUTA],
                form_d = [MEEM, HAH, ALEF, MEEM, YEH, TEH, ALEF, NOON, SP, AIN, ALEF, MEEM, TEH, ALEF, NOON],
                form_p = [MEEM, HAH, ALEF, MEEM, YEH, ALEF, TEH, SP, AIN, ALEF, MEEM, ALEF, TEH]\<rparr>\<rparr>),
  ([NOON, ALEF, YEH_HAMZA, BEH, SP, ALEF, LAM, WAW, KAF, YEH, LAM, SP, ALEF, LAM, AIN, ALEF, MEEM, SP,
    LAM, LAM, MEEM, LAM, KAF],
    \<lparr>gram_m = \<lparr>form_s = [SP, NOON, ALEF, YEH_HAMZA, BEH, SP, ALEF, LAM, WAW, KAF, YEH, LAM, SP,
                          ALEF, LAM, AIN, ALEF, MEEM, SP, LAM, LAM, MEEM, LAM, KAF, SP,
                          LAM, DAL, ALEF_MAKSURA],
                form_d = [SP, NOON, ALEF, YEH_HAMZA, BEH, ALEF, SP, ALEF, LAM, WAW, KAF, YEH, LAM, SP,
                          ALEF, LAM, AIN, ALEF, MEEM, SP, LAM, LAM, MEEM, LAM, KAF, SP,
                          LAM, DAL, ALEF_MAKSURA],
                form_p = [NOON, WAW, ALEF, BEH, SP, ALEF, LAM, WAW, KAF, YEH, LAM, SP,
                          ALEF, LAM, AIN, ALEF, MEEM, SP, LAM, LAM, MEEM, LAM, KAF, SP,
                          LAM, DAL, ALEF_MAKSURA, SP]\<rparr>,
     gram_f = \<lparr>form_s = [NOON, ALEF, YEH_HAMZA, BEH, TEH_MARBUTA, SP, ALEF, LAM, WAW, KAF, YEH, LAM, SP,
                          ALEF, LAM, AIN, ALEF, MEEM, SP, LAM, LAM, MEEM, LAM, KAF, SP,
                          LAM, DAL, ALEF_MAKSURA, SP],
                form_d = [LAM, NOON, ALEF, YEH_HAMZA, BEH, TEH, ALEF, SP, ALEF, LAM, WAW, KAF, YEH, LAM, SP,
                          ALEF, LAM, AIN, ALEF, MEEM, SP, LAM, LAM, MEEM, LAM, KAF, SP,
                          LAM, DAL, ALEF_MAKSURA, SP],
                form_p = [NOON, ALEF, YEH_HAMZA, BEH, ALEF, TEH, SP, ALEF, LAM, WAW, KAF, YEH, LAM, SP,
                          ALEF, LAM, AIN, ALEF, MEEM, SP, LAM, LAM, MEEM, LAM, KAF, SP,
                          LAM, DAL, ALEF_MAKSURA, SP]\<rparr>\<rparr>),
  ([NOON, ALEF, YEH_HAMZA, BEH, SP, WAW, KAF, YEH, LAM, SP, ALEF, LAM, MEEM, LAM, KAF],
    \<lparr>gram_m = \<lparr>form_s = [NOON, ALEF, YEH_HAMZA, BEH, SP, WAW, KAF, YEH, LAM, SP,
                          ALEF, LAM, MEEM, LAM, KAF, SP, LAM, DAL, ALEF_MAKSURA],
                form_d = [NOON, ALEF, YEH_HAMZA, BEH, ALEF, SP, WAW, KAF, YEH, LAM, SP,
                          ALEF, LAM, MEEM, LAM, KAF, SP, LAM, DAL, ALEF_MAKSURA],
                form_p = [NOON, WAW, ALEF, BEH, SP, WAW, KAF, YEH, LAM, SP,
                          ALEF, LAM, MEEM, LAM, KAF, SP, LAM, DAL, ALEF_MAKSURA, SP]\<rparr>,
     gram_f = \<lparr>form_s = [NOON, ALEF, YEH_HAMZA, BEH, TEH_MARBUTA, SP, WAW, KAF, YEH, LAM, SP,
                          ALEF, LAM, MEEM, LAM, KAF, SP, LAM, DAL, ALEF_MAKSURA, SP],
                form_d = [NOON, ALEF, YEH_HAMZA, BEH, TEH, ALEF, SP, WAW, KAF, YEH, LAM, SP,
                          ALEF, LAM, MEEM, LAM, KAF, SP, LAM, DAL, ALEF_MAKSURA, SP],
                form_p = [NOON, ALEF, YEH_HAMZA, BEH, ALEF, TEH, SP, WAW, KAF, YEH, LAM, SP,
                          ALEF, LAM, MEEM, LAM, KAF, SP, LAM, DAL, ALEF_MAKSURA, SP]\<rparr>\<rparr>)]"

section \<open>The title normalizer\<close>

text \<open>
  \<^verbatim>\<open>findMasculineRoot(title)\<close>: the empty title gives the empty string; a title the
  dictionary object answers to is returned as it is; then the entries are scanned
  in order for a feminine form equal to the title; then the first word, when it
  ends with TEH MARBUTA, is replaced by itself without its last code unit and the
  dictionary is asked again; otherwise the title comes back.
\<close>

definition isFeminineFormOf :: "jsstring \<Rightarrow> jsstring \<times> grammar \<Rightarrow> bool" where
  "isFeminineFormOf title kg \<longleftrightarrow>
     form_s (gram_f (snd kg)) = title \<or> form_d (gram_f (snd kg)) = title
       \<or> form_p (gram_f (snd kg)) = title"

definition findMasculineRoot :: "jsstring \<Rightarrow> jsstring" where
  "findMasculineRoot title =
     (if title = [] then []
      else if truthy (getProp jobTitleGrammar title) then title
      else case find (isFeminineFormOf title) jobTitleGrammar of
          Some kg \<Rightarrow> fst kg
        | None \<Rightarrow>
           (let firstWord = firstToken title in
            if endsWith firstWord [TEH_MARBUTA] then
              (let masculinizedTitle = replace_str title firstWord (butlast firstWord) in
               if truthy (getProp jobTitleGrammar masculinizedTitle) then masculinizedTitle
               else title)
            else title))"

section \<open>Employee records\<close>

text \<open>
  The roster and the invited list are arrays of records read from JSON. A field read
  from a record is \<^verbatim>\<open>undefined\<close> when the record has no such field, \<^verbatim>\<open>null\<close> when JSON
  has \<^verbatim>\<open>null\<close> there, or a value: a string for a text field, a number or a string for
  the identifier. \<^verbatim>\<open>===\<close> and \<^verbatim>\<open>!==\<close> on such values are equality and inequality of
  the modelled values: \<^verbatim>\<open>undefined\<close>, \<^verbatim>\<open>null\<close>, a number and a string are all different
  from each other.
\<close>

datatype 'a jsval = Undefined | Null | Val 'a

datatype idval = IdNum int | IdStr jsstring

record employee =
  employeeId :: "idval jsval"
  fullName :: "jsstring jsval"
  gender :: "jsstring jsval"
  jobTitle :: "jsstring jsval"
  postResponsibility :: "jsstring jsval"
  workLocation :: "jsstring jsval"
  division :: "jsstring jsval"
  city :: "jsstring jsval"

text \<open>
  How a field becomes text: inside a template literal \<^verbatim>\<open>undefined\<close> and \<^verbatim>\<open>null\<close> print
  as the words ``undefined'' and ``null''; \<^verbatim>\<open>Array.prototype.join\<close> prints both as the
  empty string; and \<^verbatim>\<open>x || d\<close> takes \<^verbatim>\<open>d\<close> when \<^verbatim>\<open>x\<close> is \<^verbatim>\<open>undefined\<close>, \<^verbatim>\<open>null\<close> or the
  empty string.
\<close>

definition templateStr :: "jsstring jsval \<Rightarrow> jsstring" where
  "templateStr v =
     (case v of Undefined \<Rightarrow> ascii ''undefined'' | Null \<Rightarrow> ascii ''null'' | Val s \<Rightarrow> s)"

definition joinStr :: "jsstring jsval \<Rightarrow> jsstring" where
  "joinStr v = (case v of Undefined \<Rightarrow> [] | Null \<Rightarrow> [] | Val s \<Rightarrow> s)"

definition orElse :: "jsstring jsval \<Rightarrow> jsstring \<Rightarrow> jsstring" where
  "orElse v d =
     (case v of Undefined \<Rightarrow> d | Null \<Rightarrow> d | Val s \<Rightarrow> if s = [] then d else s)"

datatype error = TypeError

section \<open>The string literals of the resolver\<close>

text \<open>The two gender sentinels, which are also the singular honorifics.\<close>

abbreviation gender_male :: jsstring where
  "gender_male \<equiv> [ALEF, LAM, SEEN, YEH, DAL]"
abbreviation gender_female :: jsstring where
  "gender_female \<equiv> [ALEF, LAM, SEEN, YEH, DAL, TEH_MARBUTA]"

abbreviation honorific_male_dual :: jsstring where
  "honorific_male_dual \<equiv> [ALEF, LAM, SEEN, YEH, DAL, YEH, NOON]"
abbreviation honorific_male_plural :: jsstring where
  "honorific_male_plural \<equiv> [ALEF, LAM, SEEN, ALEF, DAL, TEH_MARBUTA]"
abbreviation honorific_female_dual :: jsstring where
  "honorific_female_dual \<equiv> [ALEF, LAM, SEEN, YEH, DAL, TEH, YEH, NOON]"
abbreviation honorific_female_plural :: jsstring where
  "honorific_female_plural \<equiv> [ALEF, LAM, SEEN, YEH, DAL, ALEF, TEH]"

text \<open>
  The pronouns. The source writes the same unvowelled word for the masculine dual
  and the masculine plural.
\<close>

abbreviation pronoun_male_singular :: jsstring where
  "pronoun_male_singular \<equiv> [ALEF, LAM, MEEM, AIN, NOON, YEH]"
abbreviation pronoun_female_singular :: jsstring where
  "pronoun_female_singular \<equiv> [ALEF, LAM, MEEM, AIN, NOON, YEH, TEH_MARBUTA]"
abbreviation pronoun_male_dual :: jsstring where
  "pronoun_male_dual \<equiv> [ALEF, LAM, MEEM, AIN, NOON, YEH, YEH, NOON]"
abbreviation pronoun_female_dual :: jsstring where
  "pronoun_female_dual \<equiv> [ALEF, LAM, MEEM, AIN, NOON, YEH, TEH, YEH, NOON]"
abbreviation pronoun_male_plural :: jsstring where
  "pronoun_male_plural \<equiv> [ALEF, LAM, MEEM, AIN, NOON, YEH, YEH, NOON]"
abbreviation pronoun_female_plural :: jsstring where
  "pronoun_female_plural \<equiv> [ALEF, LAM, MEEM, AIN, NOON, YEH, ALEF, TEH]"

text \<open>The separator of \<^verbatim>\<open>join\<close> and of the mixed group: space, WAW, space.\<close>

abbreviation connector :: jsstring where
  "connector \<equiv> [SP, WAW, SP]"

section \<open>The collective-title resolver\<close>

text \<open>
  \<^verbatim>\<open>processGroupData(employees)\<close>. Each local variable of the function is a
  definition of the same name, in the order of the source.
\<close>

definition males :: "employee list \<Rightarrow> employee list" where
  "males employees = filter (\<lambda>e. gender e = Val gender_male) employees"

definition females :: "employee list \<Rightarrow> employee list" where
  "females employees = filter (\<lambda>e. gender e = Val gender_female) employees"

definition maleCollectiveTitle :: "employee list \<Rightarrow> jsstring" where
  "maleCollectiveTitle employees =
     (let base =
        (if length (males employees) > 0 then
           (let title = (if length (males employees) = 1 then gender_male
                         else if length (males employees) = 2 then honorific_male_dual
                         else honorific_male_plural);
                maleNames = join connector (map (\<lambda>e. joinStr (fullName e)) (males employees))
            in title @ [SP] @ maleNames)
         else [])
      in if length (males employees) > 0 then [BEH] @ base else base)"

definition femaleCollectiveTitle :: "employee list \<Rightarrow> jsstring" where
  "femaleCollectiveTitle employees =
     (let base =
        (if length (females employees) > 0 then
           (let title = (if length (females employees) = 1 then gender_female
                         else if length (females employees) = 2 then honorific_female_dual
                         else honorific_female_plural);
                femaleNames = join connector (map (\<lambda>e. joinStr (fullName e)) (females employees))
            in title @ [SP] @ femaleNames)
         else []);
          prefixed =
        (if length (males employees) > 0 then base
         else if length (females employees) > 0 then [BEH] @ base
         else base)
      in if length (males employees) > 0 \<and> length (females employees) > 0
         then connector @ prefixed else prefixed)"

definition computedVar :: "employee list \<Rightarrow> jsstring" where
  "computedVar employees =
     (let totalCount = length employees in
      if totalCount = 1 then
        (if length (males employees) = 1 then pronoun_male_singular else pronoun_female_singular)
      else if totalCount = 2 then
        (if length (males employees) = 2 then pronoun_male_dual
         else if length (females employees) = 2 then pronoun_female_dual
         else pronoun_male_dual)
      else
        (if length (males employees) > 0 then pronoun_male_plural else pronoun_female_plural))"

definition city_of :: "employee list \<Rightarrow> jsstring jsval" where
  "city_of employees = (case employees of [] \<Rightarrow> Val [] | e0 # _ \<Rightarrow> city e0)"

text \<open>
  The agreed job title, from the first member's title: \<^verbatim>\<open>representativeTitle\<close> is
  \<^verbatim>\<open>(employees[0].jobTitle || '').trim()\<close> and \<^verbatim>\<open>root\<close> is its normal form. When the
  dictionary object answers with an inherited property, \<^verbatim>\<open>grammarSet.m\<close> and
  \<^verbatim>\<open>grammarSet.f\<close> are \<^verbatim>\<open>undefined\<close> and reading a form from them raises a
  TypeError, whatever the counts.
\<close>

definition representativeTitle :: "employee \<Rightarrow> jsstring" where
  "representativeTitle e0 = trim (orElse (jobTitle e0) [])"

definition root_of :: "employee \<Rightarrow> jsstring" where
  "root_of e0 = findMasculineRoot (representativeTitle e0)"

definition combinedJobTitle :: "employee list \<Rightarrow> error + jsstring" where
  "combinedJobTitle employees =
     (case employees of
        [] \<Rightarrow> Inr []
      | e0 # _ \<Rightarrow>
         (case getProp jobTitleGrammar (root_of e0) of
            Own grammarSet \<Rightarrow>
              (let groupMaleCount = length (males employees);
                   groupFemaleCount = length (females employees);
                   groupTotalCount = length employees
               in if groupTotalCount = 1 then
                    Inr (if groupMaleCount = 1 then form_s (gram_m grammarSet)
                         else form_s (gram_f grammarSet))
                  else if groupTotalCount = 2 then
                    (if groupFemaleCount = 2 then Inr (form_d (gram_f grammarSet))
                     else Inr (form_d (gram_m grammarSet)))
                  else if groupTotalCount > 2 then
                    (if groupMaleCount > 0 then Inr (form_p (gram_m grammarSet))
                     else Inr (form_p (gram_f grammarSet)))
                  else Inr (root_of e0))
          | Inherited \<Rightarrow> Inl TypeError
          | Absent \<Rightarrow> Inr (representativeTitle e0)))"

definition invitees_names :: "employee list \<Rightarrow> jsstring" where
  "invitees_names employees = join connector (map (\<lambda>e. joinStr (fullName e)) employees)"

definition collective_title :: "employee list \<Rightarrow> jsstring" where
  "collective_title employees =
     (if femaleCollectiveTitle employees \<noteq> [] then
        (if maleCollectiveTitle employees \<noteq> []
         then maleCollectiveTitle employees @ femaleCollectiveTitle employees
         else femaleCollectiveTitle employees)
      else maleCollectiveTitle employees)"

record groupData =
  out_city :: "jsstring jsval"
  out_maleCollectiveTitle :: jsstring
  out_femaleCollectiveTitle :: jsstring
  out_computedVar :: jsstring
  out_combinedJobTitle :: jsstring
  out_invitees_names :: jsstring
  out_collective_title :: jsstring

definition processGroupData :: "employee list \<Rightarrow> error + groupData" where
  "processGroupData employees =
     (case combinedJobTitle employees of
        Inl err \<Rightarrow> Inl err
      | Inr title \<Rightarrow>
          Inr \<lparr>out_city = city_of employees,
               out_maleCollectiveTitle = maleCollectiveTitle employees,
               out_femaleCollectiveTitle = femaleCollectiveTitle employees,
               out_computedVar = computedVar employees,
               out_combinedJobTitle = title,
               out_invitees_names = invitees_names employees,
               out_collective_title = collective_title employees\<rparr>)"

section \<open>Grouping the invited list\<close>

text \<open>
  The \<^verbatim>\<open>reduce\<close> of the click handler of \<^verbatim>\<open>generateWordBtn\<close>. The accumulator is a
  plain object: a key that names a property of \<^verbatim>\<open>Object.prototype\<close> finds a truthy
  value there, no entry is created, and \<^verbatim>\<open>acc[key].employees.push\<close> raises a
  TypeError, which ends the pass.
\<close>

record group =
  g_workLocation :: "jsstring jsval"
  g_division :: "jsstring jsval"
  g_city :: "jsstring jsval"
  g_employees :: "employee list"

definition groupKey :: "employee \<Rightarrow> jsstring" where
  "groupKey emp =
     orElse (workLocation emp) (ascii ''N/A'') @ [UNDERSCORE]
       @ orElse (division emp) (ascii ''N/A'') @ [UNDERSCORE]
       @ orElse (city emp) (ascii ''N/A'')"

definition addEmployee :: "(jsstring \<times> group) list \<Rightarrow> employee \<Rightarrow> error + (jsstring \<times> group) list" where
  "addEmployee acc emp =
     (let key = groupKey emp in
      case getProp acc key of
        Absent \<Rightarrow>
          Inr (acc @ [(key, \<lparr>g_workLocation = workLocation emp, g_division = division emp,
                             g_city = city emp, g_employees = [emp]\<rparr>)])
      | Own g \<Rightarrow> Inr (AList.update key (g\<lparr>g_employees := g_employees g @ [emp]\<rparr>) acc)
      | Inherited \<Rightarrow> Inl TypeError)"

fun reduce :: "('b \<Rightarrow> 'a \<Rightarrow> error + 'b) \<Rightarrow> 'a list \<Rightarrow> 'b \<Rightarrow> error + 'b" where
  "reduce f [] acc = Inr acc"
| "reduce f (x # xs) acc = (case f acc x of Inl err \<Rightarrow> Inl err | Inr acc' \<Rightarrow> reduce f xs acc')"

definition groupedEmployees :: "employee list \<Rightarrow> error + (jsstring \<times> group) list" where
  "groupedEmployees invitedList = reduce addEmployee invitedList []"

section \<open>The responsible person and the data of one document\<close>

abbreviation keyword_rais :: jsstring where
  "keyword_rais \<equiv> [REH, YEH_HAMZA, YEH, SEEN]"
abbreviation keyword_raisa :: jsstring where
  "keyword_raisa \<equiv> [REH, YEH_HAMZA, YEH, SEEN, TEH_MARBUTA]"
abbreviation keyword_wakil :: jsstring where
  "keyword_wakil \<equiv> [WAW, KAF, YEH, LAM]"
abbreviation keyword_wakila :: jsstring where
  "keyword_wakila \<equiv> [WAW, KAF, YEH, LAM, TEH_MARBUTA]"

definition isResponsible :: "employee \<Rightarrow> bool" where
  "isResponsible employee =
     (case postResponsibility employee of
        Undefined \<Rightarrow> False
      | Null \<Rightarrow> False
      | Val pr \<Rightarrow>
          if pr = [] then False
          else (let title = trim pr in
                includes_str title keyword_rais \<or> includes_str title keyword_raisa
                  \<or> includes_str title keyword_wakil \<or> includes_str title keyword_wakila))"

text \<open>
  The callback of \<^verbatim>\<open>employeeData.find\<close>: the three comparisons are evaluated from the
  left, and \<^verbatim>\<open>employees[0].city\<close> raises when the group has no member.
\<close>

definition matchesGroup :: "group \<Rightarrow> employee \<Rightarrow> error + bool" where
  "matchesGroup g e =
     (if workLocation e \<noteq> g_workLocation g \<or> division e \<noteq> g_division g then Inr False
      else case g_employees g of
             [] \<Rightarrow> Inl TypeError
           | e0 # _ \<Rightarrow> if city e \<noteq> city e0 then Inr False else Inr (isResponsible e))"

fun find_first :: "('a \<Rightarrow> error + bool) \<Rightarrow> 'a list \<Rightarrow> error + 'a option" where
  "find_first p [] = Inr None"
| "find_first p (x # xs) =
     (case p x of
        Inl err \<Rightarrow> Inl err
      | Inr b \<Rightarrow> if b then Inr (Some x) else find_first p xs)"

definition responsibilityLine :: "employee option \<Rightarrow> jsstring" where
  "responsibilityLine responsiblePerson =
     (case responsiblePerson of
        None \<Rightarrow> []
      | Some rp \<Rightarrow>
          (let genderPrefix = (if gender rp = Val gender_female then gender_female else gender_male)
           in genderPrefix @ [SP] @ templateStr (jobTitle rp)))"

text \<open>
  \<^verbatim>\<open>responsiblePersonId\<close> is the person's identifier, or \<^verbatim>\<open>null\<close> when nobody was found.
  The filter keeps the members whose identifier is not strictly equal to it.
\<close>

definition responsiblePersonId :: "employee option \<Rightarrow> idval jsval" where
  "responsiblePersonId responsiblePerson =
     (case responsiblePerson of None \<Rightarrow> Null | Some rp \<Rightarrow> employeeId rp)"

definition filteredEmployees :: "employee option \<Rightarrow> employee list \<Rightarrow> employee list" where
  "filteredEmployees responsiblePerson employees =
     filter (\<lambda>e. employeeId e \<noteq> responsiblePersonId responsiblePerson) employees"

record documentData =
  doc_workLocation :: "jsstring jsval"
  doc_division :: "jsstring jsval"
  doc_employees :: "employee list"
  doc_responsibilityLine :: jsstring
  doc_processedData :: groupData

definition groupDocument :: "employee list \<Rightarrow> group \<Rightarrow> error + documentData" where
  "groupDocument employeeData g =
     (case find_first (matchesGroup g) employeeData of
        Inl err \<Rightarrow> Inl err
      | Inr responsiblePerson \<Rightarrow>
          (case processGroupData (filteredEmployees responsiblePerson (g_employees g)) of
             Inl err \<Rightarrow> Inl err
           | Inr processedData \<Rightarrow>
               Inr \<lparr>doc_workLocation = g_workLocation g,
                    doc_division = g_division g,
                    doc_employees = filteredEmployees responsiblePerson (g_employees g),
                    doc_responsibilityLine = responsibilityLine responsiblePerson,
                    doc_processedData = processedData\<rparr>))"

section \<open>Sample records\<close>

text \<open>
  Concrete records on which the theorems below are evaluated: a male judge, two
  female judges, a female deputy prosecutor whose title is the dictionary's feminine
  singular form with its final space, a clerk whose title ends with a space, a record with neither
  identifier nor gender, two records whose locations and divisions differ but
  produce the same key, a head of court with the group he is responsible for, and the roster's record of
  the same head of court with his identifier written as a string.
\<close>

definition sample :: employee where
  "sample = \<lparr>employeeId = Val (IdNum 1), fullName = Val (ascii ''Ahmed''),
     gender = Val gender_male, jobTitle = Val [QAF, ALEF, DAD, YEH],
     postResponsibility = Undefined, workLocation = Val (ascii ''court''),
     division = Val (ascii ''civil''), city = Val (ascii ''Rabat'')\<rparr>"

definition sample_f :: employee where
  "sample_f = sample\<lparr>employeeId := Val (IdNum 2), fullName := Val (ascii ''Salma''),
     gender := Val gender_female\<rparr>"

definition sample_f2 :: employee where
  "sample_f2 = sample_f\<lparr>employeeId := Val (IdNum 6), fullName := Val (ascii ''Nadia'')\<rparr>"

definition sample_deputy :: employee where
  "sample_deputy = sample_f\<lparr>employeeId := Val (IdNum 7), fullName := Val (ascii ''Hind''),
     jobTitle := Val [NOON, ALEF, YEH_HAMZA, BEH, TEH_MARBUTA, SP, WAW, KAF, YEH, LAM, SP,
                       ALEF, LAM, MEEM, LAM, KAF, SP, LAM, DAL, ALEF_MAKSURA, SP]\<rparr>"

definition sample_clerk :: employee where
  "sample_clerk = sample\<lparr>employeeId := Val (IdNum 3), fullName := Val (ascii ''Omar''),
     jobTitle := Val (ascii ''clerk '')\<rparr>"

definition sample_x :: employee where
  "sample_x = sample\<lparr>employeeId := Undefined, fullName := Val (ascii ''Sam''), gender := Undefined\<rparr>"

definition sample_ab :: employee where
  "sample_ab = sample\<lparr>employeeId := Val (IdNum 4), workLocation := Val (ascii ''a_b''),
     division := Val (ascii ''c'')\<rparr>"

definition sample_bc :: employee where
  "sample_bc = sample\<lparr>employeeId := Val (IdNum 5), workLocation := Val (ascii ''a''),
     division := Val (ascii ''b_c'')\<rparr>"

definition sample_boss :: employee where
  "sample_boss = sample\<lparr>employeeId := Val (IdNum 9), fullName := Val (ascii ''Karim''),
     postResponsibility := Val (keyword_rais @ [SP] @ ascii ''X'' @ [SP])\<rparr>"

definition sample_boss_roster :: employee where
  "sample_boss_roster = sample_boss\<lparr>employeeId := Val (IdStr (ascii ''9''))\<rparr>"

definition sample_group :: group where
  "sample_group = \<lparr>g_workLocation = Val (ascii ''court''), g_division = Val (ascii ''civil''),
     g_city = Val (ascii ''Rabat''), g_employees = [sample_boss, sample, sample_f]\<rparr>"

section \<open>Unfolding rules\<close>

lemmas string_defs = ascii_def trim_def isWhiteSpace_def endsWith_def suffix_to_prefix
  firstToken_def replace_str_def templateStr_def joinStr_def orElse_def

lemmas dictionary_defs = getProp_def truthy_def objectPrototypeNames_def jobTitleGrammar_def
  isFeminineFormOf_def findMasculineRoot_def

lemmas resolver_defs = males_def females_def maleCollectiveTitle_def femaleCollectiveTitle_def
  computedVar_def city_of_def representativeTitle_def root_of_def combinedJobTitle_def
  invitees_names_def collective_title_def processGroupData_def

lemmas grouping_defs = groupKey_def addEmployee_def groupedEmployees_def

lemmas document_defs = isResponsible_def matchesGroup_def responsibilityLine_def
  responsiblePersonId_def filteredEmployees_def groupDocument_def

lemmas sample_defs = sample_def sample_f_def sample_f2_def sample_deputy_def sample_clerk_def sample_x_def sample_ab_def
  sample_bc_def sample_boss_def sample_boss_roster_def sample_group_def

section \<open>Strings\<close>

lemma includes_str_iff: "includes_str s sub \<longleftrightarrow> (\<exists>p q. s = p @ sub @ q)"
proof (induction s)
  case Nil
  then show ?case by simp
next
  case (Cons c cs)
  show ?case
  proof
    assume "includes_str (c # cs) sub"
    then consider "prefix sub (c # cs)" | "includes_str cs sub" by auto
    then show "\<exists>p q. c # cs = p @ sub @ q"
    proof cases
      case 1
      then obtain q where "c # cs = sub @ q" by (auto simp: prefix_def)
      then have "c # cs = [] @ sub @ q" by simp
      then show ?thesis by blast
    next
      case 2
      then obtain p q where "cs = p @ sub @ q" using Cons.IH by auto
      then have "c # cs = (c # p) @ sub @ q" by simp
      then show ?thesis by blast
    qed
  next
    assume "\<exists>p q. c # cs = p @ sub @ q"
    then obtain p q where pq: "c # cs = p @ sub @ q" by auto
    show "includes_str (c # cs) sub"
    proof (cases p)
      case Nil
      then have "prefix sub (c # cs)" using pq by (simp add: prefix_def)
      then show ?thesis by simp
    next
      case (Cons a p')
      then have "cs = p' @ sub @ q" using pq by simp
      then have "includes_str cs sub" using Cons.IH by auto
      then show ?thesis by simp
    qed
  qed
qed

text \<open>What \<^verbatim>\<open>join\<close> builds, without the function itself.\<close>

lemma join_Cons: "join sep (x # xs) = x @ concat (map (\<lambda>y. sep @ y) xs)"
  by (induction xs arbitrary: x) auto

lemma join_contains: "x \<in> set xs \<Longrightarrow> \<exists>p q. join sep xs = p @ x @ q"
proof (induction sep xs rule: join.induct)
  case (1 sep)
  then show ?case by simp
next
  case (2 sep y)
  then have "join sep [y] = [] @ x @ []" by simp
  then show ?case by blast
next
  case (3 sep y z zs)
  show ?case
  proof (cases "x = y")
    case True
    then have "join sep (y # z # zs) = [] @ x @ (sep @ join sep (z # zs))" by simp
    then show ?thesis by blast
  next
    case False
    then have "x \<in> set (z # zs)" using 3 by auto
    then obtain p q where "join sep (z # zs) = p @ x @ q" using 3 by blast
    then have "join sep (y # z # zs) = (y @ sep @ p) @ x @ q" by simp
    then show ?thesis by blast
  qed
qed

lemma append_sep_eq:
  assumes "c \<notin> set a" and "c \<notin> set b" and "a @ c # r = b @ c # s"
  shows "a = b \<and> r = s"
proof -
  have tw: "\<And>u v. c \<notin> set u \<Longrightarrow> takeWhile (\<lambda>x. x \<noteq> c) (u @ c # v) = u"
  proof -
    fix u v show "c \<notin> set u \<Longrightarrow> takeWhile (\<lambda>x. x \<noteq> c) (u @ c # v) = u"
      by (induction u) auto
  qed
  have "takeWhile (\<lambda>x. x \<noteq> c) (a @ c # r) = a" "takeWhile (\<lambda>x. x \<noteq> c) (b @ c # s) = b"
    using assms(1,2) by (simp_all add: tw)
  then have "a = b" using assms(3) by simp
  then show ?thesis using assms(3) by simp
qed

lemma filter_removeAll_irrelevant: "\<not> P e \<Longrightarrow> filter P (removeAll e xs) = filter P xs"
  by (induction xs) auto

lemma find_Some_mem: "find P xs = Some x \<Longrightarrow> x \<in> set xs"
  by (induction xs) (auto split: if_splits)

section \<open>The dictionary and the normalizer\<close>

lemma getProp_Own_iff: "getProp obj k = Own v \<longleftrightarrow> map_of obj k = Some v"
  by (simp add: getProp_def split: option.splits)

text \<open>A dictionary key is its own normal form.\<close>

lemma findMasculineRoot_key:
  "map_of jobTitleGrammar k = Some g \<Longrightarrow> findMasculineRoot k = k"
  by (simp add: findMasculineRoot_def getProp_def truthy_def)

text \<open>Each feminine form of an entry has the entry's key as normal form.\<close>

lemma findMasculineRoot_feminine_forms:
  "list_all (\<lambda>(k, g). findMasculineRoot (form_s (gram_f g)) = k
       \<and> findMasculineRoot (form_d (gram_f g)) = k
       \<and> findMasculineRoot (form_p (gram_f g)) = k) jobTitleGrammar"
  by (simp add: dictionary_defs string_defs Let_def)

text \<open>
  A key whose first word has been given the feminine ending has that key as normal
  form.
\<close>

lemma findMasculineRoot_compound_titles:
  "list_all (\<lambda>(k, g).
       findMasculineRoot (firstToken k @ [TEH_MARBUTA] @ drop (length (firstToken k)) k) = k)
     jobTitleGrammar"
  by (simp add: dictionary_defs string_defs Let_def)

text \<open>
  The normal form is the title itself, a dictionary key, or the name of a property
  the dictionary object inherits.
\<close>

lemma findMasculineRoot_result:
  "findMasculineRoot t = t \<or> findMasculineRoot t \<in> fst ` set jobTitleGrammar
     \<or> findMasculineRoot t \<in> set objectPrototypeNames"
proof -
  have k: "\<And>s. truthy (getProp jobTitleGrammar s) \<Longrightarrow>
      s \<in> fst ` set jobTitleGrammar \<or> s \<in> set objectPrototypeNames"
    by (auto simp: truthy_def getProp_def split: option.splits if_splits dest: map_of_SomeD
        intro: rev_image_eqI)
  show ?thesis
  proof (cases "find (isFeminineFormOf t) jobTitleGrammar")
    case None
    then show ?thesis
      using k [of "replace_str t (firstToken t) (butlast (firstToken t))"]
      by (auto simp: findMasculineRoot_def Let_def)
  next
    case (Some kg)
    then have "fst kg \<in> fst ` set jobTitleGrammar"
      by (intro imageI find_Some_mem)
    then show ?thesis
      using Some by (auto simp: findMasculineRoot_def)
  qed
qed

text \<open>
  The replacement text of \<^verbatim>\<open>replace\<close> is interpreted: a first word that carries
  \<^verbatim>\<open>$`\<close> before its feminine ending is normalized to a key although the title without
  the ending is none.
\<close>

lemma findMasculineRoot_dollar_pattern:
  "findMasculineRoot [NOON, ALEF, YEH_HAMZA, BEH, DOLLAR, BACKTICK, TEH_MARBUTA, SP,
                      WAW, KAF, YEH, LAM, SP, ALEF, LAM, MEEM, LAM, KAF]
     = [NOON, ALEF, YEH_HAMZA, BEH, SP, WAW, KAF, YEH, LAM, SP, ALEF, LAM, MEEM, LAM, KAF]
   \<and> map_of jobTitleGrammar [NOON, ALEF, YEH_HAMZA, BEH, DOLLAR, BACKTICK, SP,
                      WAW, KAF, YEH, LAM, SP, ALEF, LAM, MEEM, LAM, KAF] = None"
  by (simp add: dictionary_defs string_defs Let_def)

section \<open>The resolver\<close>

lemma processGroupData_fields:
  assumes "processGroupData employees = Inr r"
  shows "out_city r = city_of employees"
    and "out_maleCollectiveTitle r = maleCollectiveTitle employees"
    and "out_femaleCollectiveTitle r = femaleCollectiveTitle employees"
    and "out_computedVar r = computedVar employees"
    and "combinedJobTitle employees = Inr (out_combinedJobTitle r)"
    and "out_invitees_names r = invitees_names employees"
    and "out_collective_title r = collective_title employees"
  using assms by (auto simp: processGroupData_def split: sum.splits)

text \<open>
  The resolver returns a record for every group but one whose first title is
  normalized to the name of an inherited property; there it raises.
\<close>

lemma processGroupData_returns:
  "(\<exists>r. processGroupData employees = Inr r) \<longleftrightarrow>
     (case employees of
        [] \<Rightarrow> True
      | e0 # _ \<Rightarrow> getProp jobTitleGrammar (root_of e0) \<noteq> Inherited)"
  by (auto simp: processGroupData_def combinedJobTitle_def Let_def
      split: sum.splits list.splits property.splits)

lemma processGroupData_inherited_title_raises:
  "processGroupData [sample\<lparr>jobTitle := Val (ascii ''constructor'')\<rparr>] = Inl TypeError"
  by (simp add: sample_defs resolver_defs dictionary_defs string_defs Let_def)

lemma males_nonempty_iff:
  "(0 < length (males xs)) = (\<exists>e\<in>set xs. gender e = Val gender_male)"
  unfolding males_def length_greater_0_conv by (simp add: filter_empty_conv)

lemma combinedJobTitle_Own:
  assumes "employees = e0 # rest" and "getProp jobTitleGrammar (root_of e0) = Own grammarSet"
  shows "combinedJobTitle employees = Inr
           (if length employees = 1 then
              (if length (males employees) = 1 then form_s (gram_m grammarSet)
               else form_s (gram_f grammarSet))
            else if length employees = 2 then
              (if length (females employees) = 2 then form_d (gram_f grammarSet)
               else form_d (gram_m grammarSet))
            else
              (if 0 < length (males employees) then form_p (gram_m grammarSet)
               else form_p (gram_f grammarSet)))"
proof -
  have "length employees = 1 \<or> length employees = 2 \<or> 2 < length employees"
    using assms(1) by (cases rest) auto
  moreover have "combinedJobTitle employees =
      (let groupMaleCount = length (males employees);
           groupFemaleCount = length (females employees);
           groupTotalCount = length employees
       in if groupTotalCount = 1 then
            Inr (if groupMaleCount = 1 then form_s (gram_m grammarSet)
                 else form_s (gram_f grammarSet))
          else if groupTotalCount = 2 then
            (if groupFemaleCount = 2 then Inr (form_d (gram_f grammarSet))
             else Inr (form_d (gram_m grammarSet)))
          else if groupTotalCount > 2 then
            (if groupMaleCount > 0 then Inr (form_p (gram_m grammarSet))
             else Inr (form_p (gram_f grammarSet)))
          else Inr (root_of e0))"
    unfolding combinedJobTitle_def assms(1) list.case assms(2) property.case ..
  ultimately show ?thesis
    by (auto simp: Let_def)
qed

text \<open>The resolver on the sample groups.\<close>

lemma pair_result:
  "processGroupData [sample, sample_f] =
     Inr \<lparr>out_city = Val (ascii ''Rabat''),
          out_maleCollectiveTitle = [BEH] @ gender_male @ [SP] @ ascii ''Ahmed'',
          out_femaleCollectiveTitle = connector @ gender_female @ [SP] @ ascii ''Salma'',
          out_computedVar = pronoun_male_dual,
          out_combinedJobTitle = [ALEF, LAM, QAF, ALEF, DAD, YEH, YEH, NOON, SP, BEH],
          out_invitees_names = ascii ''Ahmed'' @ connector @ ascii ''Salma'',
          out_collective_title = [BEH] @ gender_male @ [SP] @ ascii ''Ahmed''
             @ connector @ gender_female @ [SP] @ ascii ''Salma''\<rparr>"
  by (simp add: sample_defs resolver_defs dictionary_defs string_defs)

lemma clerk_result:
  "processGroupData [sample_clerk] =
     Inr \<lparr>out_city = Val (ascii ''Rabat''),
          out_maleCollectiveTitle = [BEH] @ gender_male @ [SP] @ ascii ''Omar'',
          out_femaleCollectiveTitle = [],
          out_computedVar = pronoun_male_singular,
          out_combinedJobTitle = ascii ''clerk'',
          out_invitees_names = ascii ''Omar'',
          out_collective_title = [BEH] @ gender_male @ [SP] @ ascii ''Omar''\<rparr>"
  by (simp add: sample_defs resolver_defs dictionary_defs string_defs)

lemma x_result:
  "processGroupData [sample_x] =
     Inr \<lparr>out_city = Val (ascii ''Rabat''),
          out_maleCollectiveTitle = [],
          out_femaleCollectiveTitle = [],
          out_computedVar = pronoun_female_singular,
          out_combinedJobTitle = [ALEF, LAM, QAF, ALEF, DAD, YEH, TEH_MARBUTA, SP, BEH],
          out_invitees_names = ascii ''Sam'',
          out_collective_title = []\<rparr>"
  by (simp add: sample_defs resolver_defs dictionary_defs string_defs)

lemma sample_roots:
  "root_of sample = [QAF, ALEF, DAD, YEH]"
  "root_of sample_f = [QAF, ALEF, DAD, YEH]"
  "root_of sample_f2 = [QAF, ALEF, DAD, YEH]"
  "root_of sample_x = [QAF, ALEF, DAD, YEH]"
  "root_of sample_clerk = ascii ''clerk''"
  by (simp_all add: sample_defs resolver_defs dictionary_defs string_defs)

section \<open>Grouping\<close>

lemma map_add_fresh:
  "m k = None \<Longrightarrow> [k \<mapsto> v] ++ m = m(k \<mapsto> v)"
  by (rule ext) (auto simp: map_add_def split: option.splits)

lemma addEmployee_map_of:
  assumes "addEmployee acc emp = Inr acc'"
  shows "map_of acc' = (map_of acc)(groupKey emp \<mapsto>
           (case map_of acc (groupKey emp) of
              None \<Rightarrow> \<lparr>g_workLocation = workLocation emp, g_division = division emp,
                        g_city = city emp, g_employees = [emp]\<rparr>
            | Some g \<Rightarrow> g\<lparr>g_employees := g_employees g @ [emp]\<rparr>))"
  using assms
  by (auto simp: addEmployee_def Let_def getProp_def map_add_fresh update_conv
      split: option.splits if_splits)

lemma addEmployee_distinct:
  assumes "addEmployee acc emp = Inr acc'" and "distinct (map fst acc)"
  shows "distinct (map fst acc')"
  using assms
  by (auto simp: addEmployee_def Let_def getProp_def distinct_update map_of_eq_None_iff
      split: option.splits if_splits)

lemma addEmployee_returns:
  "groupKey emp \<notin> set objectPrototypeNames \<Longrightarrow> \<exists>acc'. addEmployee acc emp = Inr acc'"
  by (auto simp: addEmployee_def Let_def getProp_def split: option.splits)

lemma reduce_Cons_Inr:
  "reduce f (x # xs) acc = Inr r \<longleftrightarrow> (\<exists>acc'. f acc x = Inr acc' \<and> reduce f xs acc' = Inr r)"
  by (auto split: sum.splits)

lemma reduce_addEmployee_members:
  "reduce addEmployee xs acc = Inr gs \<Longrightarrow>
     (case map_of gs k of None \<Rightarrow> [] | Some g \<Rightarrow> g_employees g) =
     (case map_of acc k of None \<Rightarrow> [] | Some g \<Rightarrow> g_employees g)
       @ filter (\<lambda>e. groupKey e = k) xs"
proof (induction xs arbitrary: acc)
  case Nil
  then show ?case by simp
next
  case (Cons x xs)
  then obtain acc' where step: "addEmployee acc x = Inr acc'"
    and rest: "reduce addEmployee xs acc' = Inr gs"
    unfolding reduce_Cons_Inr by blast
  have "(case map_of acc' k of None \<Rightarrow> [] | Some g \<Rightarrow> g_employees g) =
        (case map_of acc k of None \<Rightarrow> [] | Some g \<Rightarrow> g_employees g)
          @ (if groupKey x = k then [x] else [])"
    unfolding addEmployee_map_of [OF step] by (auto split: option.splits)
  then show ?case
    using Cons.IH [OF rest] by simp
qed

lemma reduce_addEmployee_dom:
  "reduce addEmployee xs acc = Inr gs \<Longrightarrow>
     dom (map_of gs) = dom (map_of acc) \<union> groupKey ` set xs"
proof (induction xs arbitrary: acc)
  case Nil
  then show ?case by simp
next
  case (Cons x xs)
  then obtain acc' where step: "addEmployee acc x = Inr acc'"
    and rest: "reduce addEmployee xs acc' = Inr gs"
    unfolding reduce_Cons_Inr by blast
  have "dom (map_of acc') = insert (groupKey x) (dom (map_of acc))"
    unfolding addEmployee_map_of [OF step] by simp
  then show ?case
    using Cons.IH [OF rest] by simp
qed

lemma reduce_addEmployee_distinct:
  "reduce addEmployee xs acc = Inr gs \<Longrightarrow> distinct (map fst acc) \<Longrightarrow> distinct (map fst gs)"
proof (induction xs arbitrary: acc)
  case Nil
  then show ?case by simp
next
  case (Cons x xs)
  then obtain acc' where step: "addEmployee acc x = Inr acc'"
    and rest: "reduce addEmployee xs acc' = Inr gs"
    unfolding reduce_Cons_Inr by blast
  show ?case
    using Cons.IH [OF rest addEmployee_distinct [OF step Cons.prems(2)]] .
qed

lemma reduce_addEmployee_returns:
  "\<forall>e\<in>set xs. groupKey e \<notin> set objectPrototypeNames \<Longrightarrow>
     \<exists>gs. reduce addEmployee xs acc = Inr gs"
proof (induction xs arbitrary: acc)
  case Nil
  then show ?case by simp
next
  case (Cons x xs)
  then obtain acc' where step: "addEmployee acc x = Inr acc'"
    using addEmployee_returns [of x acc] by auto
  obtain gs where "reduce addEmployee xs acc' = Inr gs"
    using Cons.IH [of acc'] Cons.prems by auto
  then show ?case using step by simp
qed

text \<open>
  What the pass builds when it returns: the keys are distinct, they are the keys of
  the invited employees, the members of the group of a key are the invited
  employees with that key in the order of the invited list, and every invited
  employee is a member of the group of its key.
\<close>

lemma groupedEmployees_members:
  assumes "groupedEmployees invitedList = Inr groups"
  shows "distinct (map fst groups)"
    and "fst ` set groups = groupKey ` set invitedList"
    and "(k, g) \<in> set groups \<Longrightarrow> g_employees g = filter (\<lambda>e. groupKey e = k) invitedList"
    and "e \<in> set invitedList \<Longrightarrow>
           \<exists>g. (groupKey e, g) \<in> set groups \<and> e \<in> set (g_employees g)"
proof -
  have r: "reduce addEmployee invitedList [] = Inr groups"
    using assms by (simp add: groupedEmployees_def)
  show d: "distinct (map fst groups)"
    using reduce_addEmployee_distinct [OF r] by simp
  show keys: "fst ` set groups = groupKey ` set invitedList"
    using reduce_addEmployee_dom [OF r] by (simp add: dom_map_of_conv_image_fst)
  have mem: "\<And>k g. (k, g) \<in> set groups \<Longrightarrow>
      g_employees g = filter (\<lambda>e. groupKey e = k) invitedList"
  proof -
    fix k g
    assume "(k, g) \<in> set groups"
    then have "map_of groups k = Some g" using d by simp
    then show "g_employees g = filter (\<lambda>e. groupKey e = k) invitedList"
      using reduce_addEmployee_members [OF r, of k] by simp
  qed
  then show "(k, g) \<in> set groups \<Longrightarrow> g_employees g = filter (\<lambda>e. groupKey e = k) invitedList" .
  show "e \<in> set invitedList \<Longrightarrow>
           \<exists>g. (groupKey e, g) \<in> set groups \<and> e \<in> set (g_employees g)"
  proof -
    assume e: "e \<in> set invitedList"
    then have "groupKey e \<in> fst ` set groups" using keys by auto
    then obtain g where g: "(groupKey e, g) \<in> set groups" by force
    then have "e \<in> set (g_employees g)" using mem [OF g] e by simp
    then show ?thesis using g by blast
  qed
qed

text \<open>
  Two invited employees are members of one group exactly when their key strings are
  equal.
\<close>

lemma same_group_iff_same_key:
  assumes "groupedEmployees invitedList = Inr groups"
    and "a \<in> set invitedList" and "b \<in> set invitedList"
  shows "(\<exists>k g. (k, g) \<in> set groups \<and> a \<in> set (g_employees g) \<and> b \<in> set (g_employees g))
           \<longleftrightarrow> groupKey a = groupKey b"
proof
  assume "\<exists>k g. (k, g) \<in> set groups \<and> a \<in> set (g_employees g) \<and> b \<in> set (g_employees g)"
  then obtain k g where "(k, g) \<in> set groups" "a \<in> set (g_employees g)" "b \<in> set (g_employees g)"
    by blast
  then show "groupKey a = groupKey b"
    using groupedEmployees_members(3) [OF assms(1), of k g] by simp
next
  assume eq: "groupKey a = groupKey b"
  obtain g where g: "(groupKey a, g) \<in> set groups" "a \<in> set (g_employees g)"
    using groupedEmployees_members(4) [OF assms(1,2)] by blast
  then have "b \<in> set (g_employees g)"
    using groupedEmployees_members(3) [OF assms(1) g(1)] eq assms(3) by simp
  then show "\<exists>k g. (k, g) \<in> set groups \<and> a \<in> set (g_employees g) \<and> b \<in> set (g_employees g)"
    using g by blast
qed

text \<open>
  The key string determines the three components as long as none of them contains
  the separator.
\<close>

lemma groupKey_injective:
  assumes "\<forall>v\<in>{workLocation a, division a, city a, workLocation b, division b, city b}.
             UNDERSCORE \<notin> set (orElse v (ascii ''N/A''))"
  shows "groupKey a = groupKey b \<longleftrightarrow>
           orElse (workLocation a) (ascii ''N/A'') = orElse (workLocation b) (ascii ''N/A'')
         \<and> orElse (division a) (ascii ''N/A'') = orElse (division b) (ascii ''N/A'')
         \<and> orElse (city a) (ascii ''N/A'') = orElse (city b) (ascii ''N/A'')"
proof
  assume eq: "groupKey a = groupKey b"
  have 1: "orElse (workLocation a) (ascii ''N/A'') = orElse (workLocation b) (ascii ''N/A'')
      \<and> orElse (division a) (ascii ''N/A'') @ UNDERSCORE # orElse (city a) (ascii ''N/A'')
        = orElse (division b) (ascii ''N/A'') @ UNDERSCORE # orElse (city b) (ascii ''N/A'')"
    using eq assms by (intro append_sep_eq [of UNDERSCORE]) (simp_all add: groupKey_def)
  then have "orElse (division a) (ascii ''N/A'') = orElse (division b) (ascii ''N/A'')
      \<and> orElse (city a) (ascii ''N/A'') = orElse (city b) (ascii ''N/A'')"
    using assms by (intro append_sep_eq [of UNDERSCORE]) simp_all
  with 1 show "orElse (workLocation a) (ascii ''N/A'') = orElse (workLocation b) (ascii ''N/A'')
         \<and> orElse (division a) (ascii ''N/A'') = orElse (division b) (ascii ''N/A'')
         \<and> orElse (city a) (ascii ''N/A'') = orElse (city b) (ascii ''N/A'')" by simp
next
  assume "orElse (workLocation a) (ascii ''N/A'') = orElse (workLocation b) (ascii ''N/A'')
         \<and> orElse (division a) (ascii ''N/A'') = orElse (division b) (ascii ''N/A'')
         \<and> orElse (city a) (ascii ''N/A'') = orElse (city b) (ascii ''N/A'')"
  then show "groupKey a = groupKey b" by (simp add: groupKey_def)
qed

text \<open>A key that names an inherited property ends the pass.\<close>

lemma groupedEmployees_inherited_key_raises:
  "groupedEmployees [sample\<lparr>workLocation := Val (ascii ''_''),
       division := Val (ascii ''proto''), city := Val (ascii ''_'')\<rparr>] = Inl TypeError"
  by (simp add: sample_defs grouping_defs dictionary_defs string_defs Let_def)

section \<open>The responsible person\<close>

lemma find_first_Some:
  "find_first p xs = Inr (Some x) \<Longrightarrow> x \<in> set xs \<and> p x = Inr True"
  by (induction xs) (auto split: sum.splits if_splits)

lemma matchesGroup_True:
  "matchesGroup g e = Inr True \<Longrightarrow>
     workLocation e = g_workLocation g \<and> division e = g_division g \<and> isResponsible e"
  by (auto simp: matchesGroup_def split: if_splits list.splits)

section \<open>The sample document\<close>

lemma boss_found:
  "find_first (matchesGroup sample_group) [sample, sample_boss, sample_f] = Inr (Some sample_boss)"
  by (simp add: sample_defs document_defs string_defs Let_def)

lemma boss_document:
  "groupDocument [sample, sample_boss, sample_f] sample_group =
     Inr \<lparr>doc_workLocation = Val (ascii ''court''), doc_division = Val (ascii ''civil''),
          doc_employees = [sample, sample_f],
          doc_responsibilityLine = gender_male @ [SP] @ [QAF, ALEF, DAD, YEH],
          doc_processedData =
            \<lparr>out_city = Val (ascii ''Rabat''),
             out_maleCollectiveTitle = [BEH] @ gender_male @ [SP] @ ascii ''Ahmed'',
             out_femaleCollectiveTitle = connector @ gender_female @ [SP] @ ascii ''Salma'',
             out_computedVar = pronoun_male_dual,
             out_combinedJobTitle = [ALEF, LAM, QAF, ALEF, DAD, YEH, YEH, NOON, SP, BEH],
             out_invitees_names = ascii ''Ahmed'' @ connector @ ascii ''Salma'',
             out_collective_title = [BEH] @ gender_male @ [SP] @ ascii ''Ahmed''
               @ connector @ gender_female @ [SP] @ ascii ''Salma''\<rparr>\<rparr>"
proof -
  have f: "filteredEmployees (Some sample_boss) (g_employees sample_group) = [sample, sample_f]"
    by (simp add: sample_defs filteredEmployees_def responsiblePersonId_def)
  show ?thesis
    apply (simp only: groupDocument_def boss_found sum.case f pair_result)
    apply (simp add: sample_defs responsibilityLine_def templateStr_def)
    done
qed

text \<open>
  What the handler does when a responsible person is found and the document data are
  produced: the resolver receives the members whose identifier is not strictly equal
  to that person's.
\<close>

lemma responsible_person_filter_strict:
  assumes "find_first (matchesGroup g) employeeData = Inr (Some rp)"
    and "groupDocument employeeData g = Inr doc"
  shows "rp \<in> set employeeData \<and> isResponsible rp
       \<and> doc_employees doc = filter (\<lambda>e. employeeId e \<noteq> employeeId rp) (g_employees g)
       \<and> processGroupData (doc_employees doc) = Inr (doc_processedData doc)
       \<and> (\<forall>e\<in>set (doc_employees doc). employeeId e \<noteq> employeeId rp)
       \<and> (\<forall>e\<in>set (g_employees g). employeeId e \<noteq> employeeId rp \<longrightarrow> e \<in> set (doc_employees doc))
       \<and> out_invitees_names (doc_processedData doc) =
           join connector (map (\<lambda>e. joinStr (fullName e))
             (filter (\<lambda>e. employeeId e \<noteq> employeeId rp) (g_employees g)))
       \<and> doc_responsibilityLine doc =
           (if gender rp = Val gender_female then gender_female else gender_male)
             @ [SP] @ templateStr (jobTitle rp)
       \<and> (\<forall>t. jobTitle rp = Val t \<longrightarrow>
            doc_responsibilityLine doc =
              (if gender rp = Val gender_female then gender_female else gender_male) @ [SP] @ t)"
proof -
  from assms have pd: "processGroupData (filteredEmployees (Some rp) (g_employees g)) =
      Inr (doc_processedData doc)"
    and de: "doc_employees doc = filteredEmployees (Some rp) (g_employees g)"
    and dl: "doc_responsibilityLine doc = responsibilityLine (Some rp)"
    by (auto simp: groupDocument_def split: sum.splits)
  have fe: "filteredEmployees (Some rp) (g_employees g) =
      filter (\<lambda>e. employeeId e \<noteq> employeeId rp) (g_employees g)"
    by (simp add: filteredEmployees_def responsiblePersonId_def)
  have names: "out_invitees_names (doc_processedData doc) =
      invitees_names (filteredEmployees (Some rp) (g_employees g))"
    using processGroupData_fields(6) [OF pd] .
  have found: "rp \<in> set employeeData \<and> isResponsible rp"
    using find_first_Some [OF assms(1)] matchesGroup_True [of g rp] by blast
  show ?thesis
    using pd found unfolding de dl names fe
    by (simp add: responsibilityLine_def invitees_names_def templateStr_def)
qed

text \<open>
  The roster's record of the head of court, with the identifier as a string, is found
  for the sample group.
\<close>

lemma boss_roster_found:
  "find_first (matchesGroup sample_group) [sample, sample_boss_roster, sample_f]
     = Inr (Some sample_boss_roster)"
  by (simp add: sample_defs document_defs string_defs Let_def)

text \<open>
  With no responsible person the filter compares with \<^verbatim>\<open>null\<close>: a member whose
  identifier is \<^verbatim>\<open>null\<close> is dropped, one without identifier is kept. A job title that is
  \<^verbatim>\<open>null\<close> prints as the word ``null'' in the responsibility line.
\<close>

lemma null_identifier_dropped:
  "filteredEmployees None [sample\<lparr>employeeId := Null\<rparr>, sample_x, sample] = [sample_x, sample]"
  by (simp add: sample_defs filteredEmployees_def responsiblePersonId_def)

lemma null_jobTitle_line:
  "responsibilityLine (Some (sample_boss\<lparr>jobTitle := Null\<rparr>)) = gender_male @ [SP] @ ascii ''null''"
  by (simp add: sample_defs responsibilityLine_def templateStr_def)

text \<open>
  The resolver does receive the empty list: when the only invited member of a group
  is the group's responsible person, the filter leaves nobody.
\<close>

lemma only_responsible_invited:
  "groupedEmployees [sample_boss] =
     Inr [(ascii ''court_civil_Rabat'',
           \<lparr>g_workLocation = Val (ascii ''court''), g_division = Val (ascii ''civil''),
            g_city = Val (ascii ''Rabat''), g_employees = [sample_boss]\<rparr>)]
   \<and> groupDocument [sample, sample_boss, sample_f]
         \<lparr>g_workLocation = Val (ascii ''court''), g_division = Val (ascii ''civil''),
          g_city = Val (ascii ''Rabat''), g_employees = [sample_boss]\<rparr> =
     Inr \<lparr>doc_workLocation = Val (ascii ''court''), doc_division = Val (ascii ''civil''),
          doc_employees = [],
          doc_responsibilityLine = gender_male @ [SP] @ [QAF, ALEF, DAD, YEH],
          doc_processedData =
            \<lparr>out_city = Val [], out_maleCollectiveTitle = [], out_femaleCollectiveTitle = [],
             out_computedVar = pronoun_female_plural, out_combinedJobTitle = [],
             out_invitees_names = [], out_collective_title = []\<rparr>\<rparr>"
proof -
  have "groupedEmployees [sample_boss] =
     Inr [(ascii ''court_civil_Rabat'',
           \<lparr>g_workLocation = Val (ascii ''court''), g_division = Val (ascii ''civil''),
            g_city = Val (ascii ''Rabat''), g_employees = [sample_boss]\<rparr>)]"
    by (simp add: sample_defs grouping_defs dictionary_defs string_defs Let_def)
  moreover have "find_first (matchesGroup
         \<lparr>g_workLocation = Val (ascii ''court''), g_division = Val (ascii ''civil''),
          g_city = Val (ascii ''Rabat''), g_employees = [sample_boss]\<rparr>)
       [sample, sample_boss, sample_f] = Inr (Some sample_boss)"
    by (simp add: sample_defs document_defs string_defs Let_def)
  moreover have "processGroupData [] =
     Inr \<lparr>out_city = Val [], out_maleCollectiveTitle = [], out_femaleCollectiveTitle = [],
          out_computedVar = pronoun_female_plural, out_combinedJobTitle = [],
          out_invitees_names = [], out_collective_title = []\<rparr>"
    by (simp add: resolver_defs)
  ultimately show ?thesis
    by (simp add: groupDocument_def filteredEmployees_def responsiblePersonId_def responsibilityLine_def templateStr_def
        sample_defs)
qed

section \<open>The claims\<close>

subsection \<open>C1: the empty group\<close>

text \<open>
  Claim C1. For the empty list the resolver returns a record whose text fields are
  all empty. Evaluated on the empty list, the city, both gender segments, the
  collective title, the agreed job title and the invitee names are empty, but the
  contextual pronoun is not: with a count of zero the pronoun falls into the last
  branch, written for more than two members, and with no male present that branch
  gives the feminine plural pronoun. The click handler reaches this case
  (\<open>only_responsible_invited\<close>).
\<close>

theorem processGroupData_empty_group:
  "processGroupData [] =
     Inr \<lparr>out_city = Val [], out_maleCollectiveTitle = [], out_femaleCollectiveTitle = [],
          out_computedVar = pronoun_female_plural, out_combinedJobTitle = [],
          out_invitees_names = [], out_collective_title = []\<rparr>
   \<and> pronoun_female_plural \<noteq> []"
  by (simp add: resolver_defs)

subsection \<open>C2: titles outside the dictionary\<close>

text \<open>
  Claim C2, as amended. For every non-empty group whose first member's job title,
  trimmed and normalized, finds nothing in the dictionary object, the resolver
  returns, and the agreed job title is that member's job title with the white space
  at both ends removed (the empty string when the title is absent or empty). It is
  the original title whenever that has no white space at its ends.
\<close>

theorem agreedJobTitle_passthrough_trimmed:
  assumes "getProp jobTitleGrammar (root_of e0) = Absent"
  shows "\<exists>r. processGroupData (e0 # rest) = Inr r \<and>
           out_combinedJobTitle r = trim (orElse (jobTitle e0) []) \<and>
           (\<forall>t. jobTitle e0 = Val t \<and> trim t = t \<longrightarrow> out_combinedJobTitle r = t)"
  using assms
  by (auto simp: processGroupData_def combinedJobTitle_def representativeTitle_def orElse_def)

theorem agreedJobTitle_passthrough_trimmed_witness:
  "getProp jobTitleGrammar (root_of sample_clerk) = Absent
   \<and> (\<exists>r. processGroupData [sample_clerk, sample] = Inr r
          \<and> out_combinedJobTitle r = ascii ''clerk'')"
proof -
  have h: "getProp jobTitleGrammar (root_of sample_clerk) = Absent"
    unfolding sample_roots by (simp add: dictionary_defs string_defs)
  have t: "trim (orElse (jobTitle sample_clerk) []) = ascii ''clerk''"
    by (simp add: sample_defs string_defs)
  show ?thesis
    using h agreedJobTitle_passthrough_trimmed [OF h, of "[sample]"] unfolding t by blast
qed

text \<open>
  The claim C2 as it was stated fails on a title that ends with a space: the title
  is no dictionary key before or after normalization, and the agreed job title
  is the trimmed title, not the original one.
\<close>

theorem agreedJobTitle_passthrough_counterexample:
  "jobTitle sample_clerk = Val (ascii ''clerk '')
   \<and> map_of jobTitleGrammar (findMasculineRoot (ascii ''clerk '')) = None
   \<and> map_of jobTitleGrammar (root_of sample_clerk) = None
   \<and> processGroupData [sample_clerk] =
       Inr \<lparr>out_city = Val (ascii ''Rabat''),
            out_maleCollectiveTitle = [BEH] @ gender_male @ [SP] @ ascii ''Omar'',
            out_femaleCollectiveTitle = [],
            out_computedVar = pronoun_male_singular,
            out_combinedJobTitle = ascii ''clerk'',
            out_invitees_names = ascii ''Omar'',
            out_collective_title = [BEH] @ gender_male @ [SP] @ ascii ''Omar''\<rparr>
   \<and> ascii ''clerk'' \<noteq> ascii ''clerk ''"
proof -
  have "jobTitle sample_clerk = Val (ascii ''clerk '')"
    by (simp add: sample_defs)
  moreover have "map_of jobTitleGrammar (findMasculineRoot (ascii ''clerk '')) = None"
    by (simp add: dictionary_defs string_defs)
  moreover have "map_of jobTitleGrammar (root_of sample_clerk) = None"
    unfolding sample_roots by (simp add: dictionary_defs string_defs)
  moreover have "ascii ''clerk'' \<noteq> ascii ''clerk ''"
    by (simp add: ascii_def)
  ultimately show ?thesis
    using clerk_result by blast
qed

subsection \<open>C3: records with missing fields\<close>

text \<open>
  Claim C3, as amended. The grouping pass excludes no record. For every invited
  list none of whose keys names a property inherited from \<^verbatim>\<open>Object.prototype\<close>,
  the pass returns, and every record of the list, whether or not it has an
  identifier or a gender, is a member of the group of its key.
\<close>

theorem no_record_is_excluded:
  assumes "\<forall>e\<in>set invitedList. groupKey e \<notin> set objectPrototypeNames"
  shows "\<exists>groups. groupedEmployees invitedList = Inr groups \<and>
           (\<forall>e\<in>set invitedList.
              \<exists>g. (groupKey e, g) \<in> set groups \<and> e \<in> set (g_employees g))"
proof -
  obtain groups where g: "groupedEmployees invitedList = Inr groups"
    using reduce_addEmployee_returns [OF assms, of "[]"] by (auto simp: groupedEmployees_def)
  then show ?thesis
    using groupedEmployees_members(4) [OF g] by blast
qed

theorem no_record_is_excluded_witness:
  "groupKey sample \<notin> set objectPrototypeNames
   \<and> groupKey sample_x \<notin> set objectPrototypeNames
   \<and> employeeId sample_x = Undefined \<and> gender sample_x = Undefined
   \<and> (\<exists>groups. groupedEmployees [sample, sample_x] = Inr groups \<and>
         (\<exists>g. (groupKey sample_x, g) \<in> set groups \<and> sample_x \<in> set (g_employees g)))"
proof -
  have k: "groupKey sample \<notin> set objectPrototypeNames"
    "groupKey sample_x \<notin> set objectPrototypeNames"
    by (simp_all add: sample_defs grouping_defs dictionary_defs string_defs)
  then have h: "\<forall>e\<in>set [sample, sample_x]. groupKey e \<notin> set objectPrototypeNames"
    by simp
  have m: "employeeId sample_x = Undefined \<and> gender sample_x = Undefined"
    by (simp add: sample_defs)
  obtain groups where g: "groupedEmployees [sample, sample_x] = Inr groups"
    and a: "\<forall>e\<in>set [sample, sample_x].
              \<exists>g. (groupKey e, g) \<in> set groups \<and> e \<in> set (g_employees g)"
    using no_record_is_excluded [OF h] by blast
  from a have "\<exists>g. (groupKey sample_x, g) \<in> set groups \<and> sample_x \<in> set (g_employees g)"
    by simp
  then show ?thesis
    using k m g by blast
qed

text \<open>
  The claim C3 as it was stated fails on a record that has neither identifier nor
  gender: it is the one member of the one group.
\<close>

theorem malformed_record_grouped_counterexample:
  "employeeId sample_x = Undefined \<and> gender sample_x = Undefined
   \<and> groupedEmployees [sample_x] =
       Inr [(ascii ''court_civil_Rabat'',
             \<lparr>g_workLocation = Val (ascii ''court''), g_division = Val (ascii ''civil''),
              g_city = Val (ascii ''Rabat''), g_employees = [sample_x]\<rparr>)]"
  by (simp add: sample_defs grouping_defs dictionary_defs string_defs Let_def)

subsection \<open>C4: the contextual pronoun\<close>

text \<open>
  Claim C4. For every group whose members are all male or female by their gender
  field, the contextual pronoun of the returned record follows the count and the
  genders: one member gives the masculine singular for a male and the feminine
  singular for a female; two members give the masculine dual when both are male,
  the feminine dual when both are female, and the masculine dual for a mixed pair;
  more than two give the masculine plural when a male is present and the feminine
  plural otherwise.
\<close>

theorem computedVar_by_count_and_gender:
  assumes "\<forall>e\<in>set employees. gender e = Val gender_male \<or> gender e = Val gender_female"
    and "processGroupData employees = Inr r"
  shows "(employees = [a] \<longrightarrow>
           (gender a = Val gender_male \<longrightarrow> out_computedVar r = pronoun_male_singular) \<and>
           (gender a = Val gender_female \<longrightarrow> out_computedVar r = pronoun_female_singular))
       \<and> (employees = [a, b] \<longrightarrow>
           (gender a = Val gender_male \<and> gender b = Val gender_male
              \<longrightarrow> out_computedVar r = pronoun_male_dual) \<and>
           (gender a = Val gender_female \<and> gender b = Val gender_female
              \<longrightarrow> out_computedVar r = pronoun_female_dual) \<and>
           (gender a \<noteq> gender b \<longrightarrow> out_computedVar r = pronoun_male_dual))
       \<and> (length employees > 2 \<longrightarrow>
           ((\<exists>e\<in>set employees. gender e = Val gender_male)
              \<longrightarrow> out_computedVar r = pronoun_male_plural) \<and>
           ((\<forall>e\<in>set employees. gender e \<noteq> Val gender_male)
              \<longrightarrow> out_computedVar r = pronoun_female_plural))"
proof -
  have cv: "out_computedVar r = computedVar employees"
    using assms(2) by (rule processGroupData_fields)
  have one: "employees = [a] \<longrightarrow>
           (gender a = Val gender_male \<longrightarrow> out_computedVar r = pronoun_male_singular) \<and>
           (gender a = Val gender_female \<longrightarrow> out_computedVar r = pronoun_female_singular)"
    unfolding cv by (simp add: computedVar_def males_def females_def)
  have two: "employees = [a, b] \<longrightarrow>
           (gender a = Val gender_male \<and> gender b = Val gender_male
              \<longrightarrow> out_computedVar r = pronoun_male_dual) \<and>
           (gender a = Val gender_female \<and> gender b = Val gender_female
              \<longrightarrow> out_computedVar r = pronoun_female_dual) \<and>
           (gender a \<noteq> gender b \<longrightarrow> out_computedVar r = pronoun_male_dual)"
    unfolding cv by (simp add: computedVar_def males_def females_def)
  have many: "length employees > 2 \<longrightarrow>
           ((\<exists>e\<in>set employees. gender e = Val gender_male)
              \<longrightarrow> out_computedVar r = pronoun_male_plural) \<and>
           ((\<forall>e\<in>set employees. gender e \<noteq> Val gender_male)
              \<longrightarrow> out_computedVar r = pronoun_female_plural)"
    unfolding cv by (auto simp: computedVar_def males_def females_def Let_def filter_empty_conv)
  show ?thesis
    using one two many by blast
qed

theorem computedVar_by_count_and_gender_witness:
  "gender sample = Val gender_male \<and> gender sample_f = Val gender_female
   \<and> gender sample \<noteq> gender sample_f
   \<and> (\<exists>r. processGroupData [sample, sample_f] = Inr r \<and> out_computedVar r = pronoun_male_dual)"
proof -
  have g: "gender sample = Val gender_male" "gender sample_f = Val gender_female"
    by (simp_all add: sample_defs)
  then have h: "\<forall>e\<in>set [sample, sample_f].
      gender e = Val gender_male \<or> gender e = Val gender_female"
    by simp
  have d: "gender sample \<noteq> gender sample_f"
    by (simp add: sample_defs)
  obtain r where r: "processGroupData [sample, sample_f] = Inr r"
    using pair_result by blast
  have "out_computedVar r = pronoun_male_dual"
    using computedVar_by_count_and_gender [OF h r, of sample sample_f] d by blast
  then show ?thesis
    using g d r by blast
qed

subsection \<open>C5: the agreed job title\<close>

text \<open>
  Claim C5, as amended. For every non-empty group whose first member's job title,
  first trimmed and then normalized, is a key of the grammar dictionary, the resolver returns and the
  agreed job title is the entry's form for the count and the genders: for one
  member the masculine singular when the member is male and the feminine singular
  otherwise; for two members the feminine dual when both are female and the
  masculine dual otherwise; for more than two the masculine plural when a male is
  present and the feminine plural otherwise.
\<close>

theorem agreedJobTitle_agreement:
  assumes "map_of jobTitleGrammar (root_of e0) = Some grammarSet"
  shows "\<exists>r. processGroupData (e0 # rest) = Inr r \<and>
           out_combinedJobTitle r =
             (if length (e0 # rest) = 1 then
                (if gender e0 = Val gender_male then form_s (gram_m grammarSet)
                 else form_s (gram_f grammarSet))
              else if length (e0 # rest) = 2 then
                (if \<forall>e\<in>set (e0 # rest). gender e = Val gender_female
                 then form_d (gram_f grammarSet) else form_d (gram_m grammarSet))
              else
                (if \<exists>e\<in>set (e0 # rest). gender e = Val gender_male
                 then form_p (gram_m grammarSet) else form_p (gram_f grammarSet)))"
proof -
  have own: "getProp jobTitleGrammar (root_of e0) = Own grammarSet"
    using assms by (simp add: getProp_Own_iff)
  note eq = combinedJobTitle_Own [OF refl own, of rest]
  have one: "length (e0 # rest) = 1 \<Longrightarrow>
      (length (males (e0 # rest)) = 1) = (gender e0 = Val gender_male)"
    by (simp add: males_def)
  have two: "length (e0 # rest) = 2 \<Longrightarrow>
      (length (females (e0 # rest)) = 2) = (\<forall>e\<in>set (e0 # rest). gender e = Val gender_female)"
    by (cases rest) (auto simp: females_def)
  have "combinedJobTitle (e0 # rest) = Inr
             (if length (e0 # rest) = 1 then
                (if gender e0 = Val gender_male then form_s (gram_m grammarSet)
                 else form_s (gram_f grammarSet))
              else if length (e0 # rest) = 2 then
                (if \<forall>e\<in>set (e0 # rest). gender e = Val gender_female
                 then form_d (gram_f grammarSet) else form_d (gram_m grammarSet))
              else
                (if \<exists>e\<in>set (e0 # rest). gender e = Val gender_male
                 then form_p (gram_m grammarSet) else form_p (gram_f grammarSet)))"
    unfolding eq males_nonempty_iff using one two by presburger
  then show ?thesis by (simp add: processGroupData_def)
qed

theorem agreedJobTitle_agreement_witness:
  "map_of jobTitleGrammar (root_of sample_f) =
     Some \<lparr>gram_m = \<lparr>form_s = [ALEF, LAM, QAF, ALEF, DAD, YEH, SP, BEH],
                      form_d = [ALEF, LAM, QAF, ALEF, DAD, YEH, YEH, NOON, SP, BEH],
                      form_p = [ALEF, LAM, QAF, DAD, ALEF, TEH_MARBUTA, SP, BEH]\<rparr>,
           gram_f = \<lparr>form_s = [ALEF, LAM, QAF, ALEF, DAD, YEH, TEH_MARBUTA, SP, BEH],
                      form_d = [ALEF, LAM, QAF, ALEF, DAD, YEH, TEH, YEH, NOON, SP, BEH],
                      form_p = [ALEF, LAM, QAF, ALEF, DAD, YEH, ALEF, TEH, SP, BEH]\<rparr>\<rparr>
   \<and> (\<exists>r. processGroupData [sample_f, sample_f2] = Inr r
          \<and> out_combinedJobTitle r = [ALEF, LAM, QAF, ALEF, DAD, YEH, TEH, YEH, NOON, SP, BEH])"
proof -
  have h: "map_of jobTitleGrammar (root_of sample_f) =
     Some \<lparr>gram_m = \<lparr>form_s = [ALEF, LAM, QAF, ALEF, DAD, YEH, SP, BEH],
                      form_d = [ALEF, LAM, QAF, ALEF, DAD, YEH, YEH, NOON, SP, BEH],
                      form_p = [ALEF, LAM, QAF, DAD, ALEF, TEH_MARBUTA, SP, BEH]\<rparr>,
           gram_f = \<lparr>form_s = [ALEF, LAM, QAF, ALEF, DAD, YEH, TEH_MARBUTA, SP, BEH],
                      form_d = [ALEF, LAM, QAF, ALEF, DAD, YEH, TEH, YEH, NOON, SP, BEH],
                      form_p = [ALEF, LAM, QAF, ALEF, DAD, YEH, ALEF, TEH, SP, BEH]\<rparr>\<rparr>"
    unfolding sample_roots by (simp add: jobTitleGrammar_def)
  have g: "gender sample_f = Val gender_female" "gender sample_f2 = Val gender_female"
    by (simp_all add: sample_defs)
  show ?thesis
    using h agreedJobTitle_agreement [OF h, of "[sample_f2]"] g by simp
qed

text \<open>
  The claim C5 as it was stated, with the normalizer applied to the job title
  itself, fails on a title of the dictionary: the feminine singular form of the
  deputy prosecutor ends with a space, the normalizer maps it to its key, but the
  resolver trims the title first, finds no entry for the trimmed title and returns
  that, for two women, instead of the feminine dual form.
\<close>

theorem agreedJobTitle_agreement_counterexample:
  "jobTitle sample_deputy =
     Val [NOON, ALEF, YEH_HAMZA, BEH, TEH_MARBUTA, SP, WAW, KAF, YEH, LAM, SP,
           ALEF, LAM, MEEM, LAM, KAF, SP, LAM, DAL, ALEF_MAKSURA, SP]
   \<and> findMasculineRoot [NOON, ALEF, YEH_HAMZA, BEH, TEH_MARBUTA, SP, WAW, KAF, YEH, LAM, SP,
           ALEF, LAM, MEEM, LAM, KAF, SP, LAM, DAL, ALEF_MAKSURA, SP]
       = [NOON, ALEF, YEH_HAMZA, BEH, SP, WAW, KAF, YEH, LAM, SP, ALEF, LAM, MEEM, LAM, KAF]
   \<and> form_d (gram_f (snd (jobTitleGrammar ! 4)))
       = [NOON, ALEF, YEH_HAMZA, BEH, TEH, ALEF, SP, WAW, KAF, YEH, LAM, SP,
          ALEF, LAM, MEEM, LAM, KAF, SP, LAM, DAL, ALEF_MAKSURA, SP]
   \<and> map_of jobTitleGrammar
         [NOON, ALEF, YEH_HAMZA, BEH, SP, WAW, KAF, YEH, LAM, SP, ALEF, LAM, MEEM, LAM, KAF]
       = Some (snd (jobTitleGrammar ! 4))
   \<and> gender sample_deputy = Val gender_female \<and> gender sample_f2 = Val gender_female
   \<and> processGroupData [sample_deputy, sample_f2] =
       Inr \<lparr>out_city = Val (ascii ''Rabat''),
            out_maleCollectiveTitle = [],
            out_femaleCollectiveTitle = [BEH] @ honorific_female_dual @ [SP]
               @ ascii ''Hind'' @ connector @ ascii ''Nadia'',
            out_computedVar = pronoun_female_dual,
            out_combinedJobTitle =
              [NOON, ALEF, YEH_HAMZA, BEH, TEH_MARBUTA, SP, WAW, KAF, YEH, LAM, SP,
               ALEF, LAM, MEEM, LAM, KAF, SP, LAM, DAL, ALEF_MAKSURA],
            out_invitees_names = ascii ''Hind'' @ connector @ ascii ''Nadia'',
            out_collective_title = [BEH] @ honorific_female_dual @ [SP]
               @ ascii ''Hind'' @ connector @ ascii ''Nadia''\<rparr>"
proof -
  have "jobTitle sample_deputy =
     Val [NOON, ALEF, YEH_HAMZA, BEH, TEH_MARBUTA, SP, WAW, KAF, YEH, LAM, SP,
           ALEF, LAM, MEEM, LAM, KAF, SP, LAM, DAL, ALEF_MAKSURA, SP]"
    by (simp add: sample_defs)
  moreover have "findMasculineRoot [NOON, ALEF, YEH_HAMZA, BEH, TEH_MARBUTA, SP, WAW, KAF, YEH, LAM, SP,
           ALEF, LAM, MEEM, LAM, KAF, SP, LAM, DAL, ALEF_MAKSURA, SP]
       = [NOON, ALEF, YEH_HAMZA, BEH, SP, WAW, KAF, YEH, LAM, SP, ALEF, LAM, MEEM, LAM, KAF]"
    by (simp add: dictionary_defs string_defs Let_def)
  moreover have "form_d (gram_f (snd (jobTitleGrammar ! 4)))
       = [NOON, ALEF, YEH_HAMZA, BEH, TEH, ALEF, SP, WAW, KAF, YEH, LAM, SP,
          ALEF, LAM, MEEM, LAM, KAF, SP, LAM, DAL, ALEF_MAKSURA, SP]
   \<and> map_of jobTitleGrammar
         [NOON, ALEF, YEH_HAMZA, BEH, SP, WAW, KAF, YEH, LAM, SP, ALEF, LAM, MEEM, LAM, KAF]
       = Some (snd (jobTitleGrammar ! 4))"
    by (simp add: jobTitleGrammar_def)
  moreover have "gender sample_deputy = Val gender_female \<and> gender sample_f2 = Val gender_female"
    by (simp add: sample_defs)
  moreover have "processGroupData [sample_deputy, sample_f2] =
       Inr \<lparr>out_city = Val (ascii ''Rabat''),
            out_maleCollectiveTitle = [],
            out_femaleCollectiveTitle = [BEH] @ honorific_female_dual @ [SP]
               @ ascii ''Hind'' @ connector @ ascii ''Nadia'',
            out_computedVar = pronoun_female_dual,
            out_combinedJobTitle =
              [NOON, ALEF, YEH_HAMZA, BEH, TEH_MARBUTA, SP, WAW, KAF, YEH, LAM, SP,
               ALEF, LAM, MEEM, LAM, KAF, SP, LAM, DAL, ALEF_MAKSURA],
            out_invitees_names = ascii ''Hind'' @ connector @ ascii ''Nadia'',
            out_collective_title = [BEH] @ honorific_female_dual @ [SP]
               @ ascii ''Hind'' @ connector @ ascii ''Nadia''\<rparr>"
    by (simp add: sample_defs resolver_defs dictionary_defs string_defs Let_def)
  ultimately show ?thesis
    by blast
qed

subsection \<open>C6: the collective title\<close>

text \<open>
  Claim C6. For every group for which the resolver returns, a gender partition
  without members has the empty segment, and a partition with a first member and
  further members has the segment made of: its lead; its honorific, singular for
  one member, dual for two, plural for more; a space; the first member's full name;
  and for each further member, in order, the connector (WAW between spaces) and
  that member's full name. The lead of the male segment is the preposition BEH;
  the lead of the female segment is BEH when there is no male and the connector
  when there is one. The collective title is the male segment followed by the
  female segment, an empty partition contributing nothing. A name that is
  \<^verbatim>\<open>undefined\<close> or \<^verbatim>\<open>null\<close> is joined as the empty string.
\<close>

theorem collective_title_segments:
  assumes "processGroupData employees = Inr r"
  shows "(filter (\<lambda>e. gender e = Val gender_male) employees = []
            \<longrightarrow> out_maleCollectiveTitle r = [])
       \<and> (\<forall>m ms. filter (\<lambda>e. gender e = Val gender_male) employees = m # ms \<longrightarrow>
            out_maleCollectiveTitle r =
              [BEH]
              @ (if ms = [] then gender_male
                 else if length ms = 1 then honorific_male_dual
                 else honorific_male_plural)
              @ [SP]
              @ (case fullName m of Val n \<Rightarrow> n | _ \<Rightarrow> [])
              @ concat (map (\<lambda>e. connector @ (case fullName e of Val n \<Rightarrow> n | _ \<Rightarrow> [])) ms))
       \<and> (filter (\<lambda>e. gender e = Val gender_female) employees = []
            \<longrightarrow> out_femaleCollectiveTitle r = [])
       \<and> (\<forall>f fs. filter (\<lambda>e. gender e = Val gender_female) employees = f # fs \<longrightarrow>
            out_femaleCollectiveTitle r =
              (if filter (\<lambda>e. gender e = Val gender_male) employees = [] then [BEH]
               else connector)
              @ (if fs = [] then gender_female
                 else if length fs = 1 then honorific_female_dual
                 else honorific_female_plural)
              @ [SP]
              @ (case fullName f of Val n \<Rightarrow> n | _ \<Rightarrow> [])
              @ concat (map (\<lambda>e. connector @ (case fullName e of Val n \<Rightarrow> n | _ \<Rightarrow> [])) fs))
       \<and> out_collective_title r = out_maleCollectiveTitle r @ out_femaleCollectiveTitle r"
proof -
  have m: "out_maleCollectiveTitle r = maleCollectiveTitle employees"
    and f: "out_femaleCollectiveTitle r = femaleCollectiveTitle employees"
    and c: "out_collective_title r = collective_title employees"
    using assms by (rule processGroupData_fields)+
  have nm: "\<And>e. joinStr (fullName e) = (case fullName e of Val n \<Rightarrow> n | _ \<Rightarrow> [])"
    by (simp add: joinStr_def split: jsval.splits)
  have m0: "filter (\<lambda>e. gender e = Val gender_male) employees = []
            \<longrightarrow> out_maleCollectiveTitle r = []"
    unfolding m by (simp add: maleCollectiveTitle_def males_def)
  have m1: "\<forall>m ms. filter (\<lambda>e. gender e = Val gender_male) employees = m # ms \<longrightarrow>
            out_maleCollectiveTitle r =
              [BEH]
              @ (if ms = [] then gender_male
                 else if length ms = 1 then honorific_male_dual
                 else honorific_male_plural)
              @ [SP]
              @ (case fullName m of Val n \<Rightarrow> n | _ \<Rightarrow> [])
              @ concat (map (\<lambda>e. connector @ (case fullName e of Val n \<Rightarrow> n | _ \<Rightarrow> [])) ms)"
  proof (intro allI impI)
    fix x xs
    assume h: "filter (\<lambda>e. gender e = Val gender_male) employees = x # xs"
    then have "males employees = x # xs" by (simp add: males_def)
    then show "out_maleCollectiveTitle r =
              [BEH]
              @ (if xs = [] then gender_male
                 else if length xs = 1 then honorific_male_dual
                 else honorific_male_plural)
              @ [SP]
              @ (case fullName x of Val n \<Rightarrow> n | _ \<Rightarrow> [])
              @ concat (map (\<lambda>e. connector @ (case fullName e of Val n \<Rightarrow> n | _ \<Rightarrow> [])) xs)"
      unfolding m maleCollectiveTitle_def Let_def by (simp add: join_Cons nm comp_def)
  qed
  have f0: "filter (\<lambda>e. gender e = Val gender_female) employees = []
            \<longrightarrow> out_femaleCollectiveTitle r = []"
    unfolding f by (simp add: femaleCollectiveTitle_def females_def)
  have f1: "\<forall>f fs. filter (\<lambda>e. gender e = Val gender_female) employees = f # fs \<longrightarrow>
            out_femaleCollectiveTitle r =
              (if filter (\<lambda>e. gender e = Val gender_male) employees = [] then [BEH]
               else connector)
              @ (if fs = [] then gender_female
                 else if length fs = 1 then honorific_female_dual
                 else honorific_female_plural)
              @ [SP]
              @ (case fullName f of Val n \<Rightarrow> n | _ \<Rightarrow> [])
              @ concat (map (\<lambda>e. connector @ (case fullName e of Val n \<Rightarrow> n | _ \<Rightarrow> [])) fs)"
  proof (intro allI impI)
    fix x xs
    assume h: "filter (\<lambda>e. gender e = Val gender_female) employees = x # xs"
    then have fe: "females employees = x # xs" by (simp add: females_def)
    have me: "(males employees = []) = (filter (\<lambda>e. gender e = Val gender_male) employees = [])"
      by (simp add: males_def)
    show "out_femaleCollectiveTitle r =
              (if filter (\<lambda>e. gender e = Val gender_male) employees = [] then [BEH]
               else connector)
              @ (if xs = [] then gender_female
                 else if length xs = 1 then honorific_female_dual
                 else honorific_female_plural)
              @ [SP]
              @ (case fullName x of Val n \<Rightarrow> n | _ \<Rightarrow> [])
              @ concat (map (\<lambda>e. connector @ (case fullName e of Val n \<Rightarrow> n | _ \<Rightarrow> [])) xs)"
      unfolding f femaleCollectiveTitle_def Let_def me [symmetric] fe
      by (simp add: join_Cons nm comp_def)
  qed
  have ct: "out_collective_title r = out_maleCollectiveTitle r @ out_femaleCollectiveTitle r"
    unfolding m f c by (simp add: collective_title_def)
  show ?thesis
    using m0 m1 f0 f1 ct by blast
qed

text \<open>
  Three men and two women: the plural honorific with three names, then the
  connector and the dual honorific with two names.
\<close>

theorem collective_title_segments_witness:
  "\<exists>r. processGroupData [sample, sample_f, sample_clerk, sample_boss, sample_f2] = Inr r
       \<and> out_maleCollectiveTitle r =
           [BEH] @ honorific_male_plural @ [SP]
             @ ascii ''Ahmed'' @ connector @ ascii ''Omar'' @ connector @ ascii ''Karim''
       \<and> out_femaleCollectiveTitle r =
           connector @ honorific_female_dual @ [SP]
             @ ascii ''Salma'' @ connector @ ascii ''Nadia''
       \<and> out_collective_title r =
           [BEH] @ honorific_male_plural @ [SP]
             @ ascii ''Ahmed'' @ connector @ ascii ''Omar'' @ connector @ ascii ''Karim''
             @ connector @ honorific_female_dual @ [SP]
             @ ascii ''Salma'' @ connector @ ascii ''Nadia''"
proof -
  have "getProp jobTitleGrammar (root_of sample) \<noteq> Inherited"
    unfolding sample_roots by (simp add: getProp_def jobTitleGrammar_def)
  then obtain r where
    r: "processGroupData [sample, sample_f, sample_clerk, sample_boss, sample_f2] = Inr r"
    using processGroupData_returns [of "[sample, sample_f, sample_clerk, sample_boss, sample_f2]"]
    by auto
  have ms: "filter (\<lambda>e. gender e = Val gender_male)
        [sample, sample_f, sample_clerk, sample_boss, sample_f2] = [sample, sample_clerk, sample_boss]"
    and fs: "filter (\<lambda>e. gender e = Val gender_female)
        [sample, sample_f, sample_clerk, sample_boss, sample_f2] = [sample_f, sample_f2]"
    by (simp_all add: sample_defs)
  have n: "fullName sample = Val (ascii ''Ahmed'')" "fullName sample_clerk = Val (ascii ''Omar'')"
    "fullName sample_boss = Val (ascii ''Karim'')" "fullName sample_f = Val (ascii ''Salma'')"
    "fullName sample_f2 = Val (ascii ''Nadia'')"
    by (simp_all add: sample_defs)
  note t = collective_title_segments [OF r]
  have a: "out_maleCollectiveTitle r =
           [BEH] @ honorific_male_plural @ [SP]
             @ ascii ''Ahmed'' @ connector @ ascii ''Omar'' @ connector @ ascii ''Karim''"
    using t ms by (simp add: n)
  have b: "out_femaleCollectiveTitle r =
           connector @ honorific_female_dual @ [SP]
             @ ascii ''Salma'' @ connector @ ascii ''Nadia''"
    using t ms fs by (simp add: n)
  have c: "out_collective_title r = out_maleCollectiveTitle r @ out_femaleCollectiveTitle r"
    using t by blast
  show ?thesis
    using r a b c by auto
qed

subsection \<open>C7: the title normalizer\<close>

text \<open>
  Claim C7. The normalizer returns a dictionary key unchanged, returns the key of
  the entry for each feminine form, returns the masculinized title when the first
  word loses its feminine ending and the result is a key, and otherwise returns
  the title unchanged. The first three parts hold (\<open>findMasculineRoot_key\<close>,
  \<open>findMasculineRoot_feminine_forms\<close>, \<open>findMasculineRoot_compound_titles\<close>). The
  last does not: the word ``constructor'' followed by the feminine ending is no
  key, no feminine form, and without its ending it is no key either, yet the
  normalizer returns it without the ending, because the dictionary object inherits
  a property of that name.
\<close>

theorem findMasculineRoot_inherited_name:
  "findMasculineRoot (ascii ''constructor'' @ [TEH_MARBUTA]) = ascii ''constructor''
   \<and> map_of jobTitleGrammar (ascii ''constructor'') = None
   \<and> map_of jobTitleGrammar (ascii ''constructor'' @ [TEH_MARBUTA]) = None
   \<and> ascii ''constructor'' \<noteq> ascii ''constructor'' @ [TEH_MARBUTA]"
  by (simp add: dictionary_defs string_defs Let_def)

subsection \<open>C8: the responsible person\<close>

text \<open>
  Claim C8. When a responsible person is found for a group, that person is excluded
  by identifier from the members handed to the resolver and appears only in the
  responsibility line. The identifier is compared numerically wherever else the
  code compares identifiers (\<^verbatim>\<open>parseInt\<close> on both sides when an employee is added,
  removed or imported), but the filter of the handler compares with \<^verbatim>\<open>!==\<close>. The head
  of court is invited with the identifier 9, a number, and is in the roster with
  the identifier ``9'', a string: he is found as the responsible person of the
  sample group and named in the responsibility line, and he stays among the
  members: his name leads the invitee names and the collective title, and the two
  men get the dual honorific and, with the woman, the plural pronoun and job title.
\<close>

theorem responsible_person_not_excluded:
  "employeeId sample_boss = Val (IdNum 9)
   \<and> employeeId sample_boss_roster = Val (IdStr (ascii ''9''))
   \<and> fullName sample_boss_roster = Val (ascii ''Karim'')
   \<and> g_employees sample_group = [sample_boss, sample, sample_f]
   \<and> groupDocument [sample, sample_boss_roster, sample_f] sample_group =
       Inr \<lparr>doc_workLocation = Val (ascii ''court''), doc_division = Val (ascii ''civil''),
            doc_employees = [sample_boss, sample, sample_f],
            doc_responsibilityLine = gender_male @ [SP] @ [QAF, ALEF, DAD, YEH],
            doc_processedData =
              \<lparr>out_city = Val (ascii ''Rabat''),
               out_maleCollectiveTitle = [BEH] @ honorific_male_dual @ [SP]
                 @ ascii ''Karim'' @ connector @ ascii ''Ahmed'',
               out_femaleCollectiveTitle = connector @ gender_female @ [SP] @ ascii ''Salma'',
               out_computedVar = pronoun_male_plural,
               out_combinedJobTitle = [ALEF, LAM, QAF, DAD, ALEF, TEH_MARBUTA, SP, BEH],
               out_invitees_names = ascii ''Karim'' @ connector @ ascii ''Ahmed''
                 @ connector @ ascii ''Salma'',
               out_collective_title = [BEH] @ honorific_male_dual @ [SP]
                 @ ascii ''Karim'' @ connector @ ascii ''Ahmed''
                 @ connector @ gender_female @ [SP] @ ascii ''Salma''\<rparr>\<rparr>"
proof -
  have i: "employeeId sample_boss = Val (IdNum 9)
      \<and> employeeId sample_boss_roster = Val (IdStr (ascii ''9''))
      \<and> fullName sample_boss_roster = Val (ascii ''Karim'')
      \<and> g_employees sample_group = [sample_boss, sample, sample_f]"
    by (simp add: sample_defs)
  have f: "filteredEmployees (Some sample_boss_roster) (g_employees sample_group)
      = [sample_boss, sample, sample_f]"
    by (simp add: sample_defs filteredEmployees_def responsiblePersonId_def ascii_def)
  have p: "processGroupData [sample_boss, sample, sample_f] =
       Inr \<lparr>out_city = Val (ascii ''Rabat''),
            out_maleCollectiveTitle = [BEH] @ honorific_male_dual @ [SP]
              @ ascii ''Karim'' @ connector @ ascii ''Ahmed'',
            out_femaleCollectiveTitle = connector @ gender_female @ [SP] @ ascii ''Salma'',
            out_computedVar = pronoun_male_plural,
            out_combinedJobTitle = [ALEF, LAM, QAF, DAD, ALEF, TEH_MARBUTA, SP, BEH],
            out_invitees_names = ascii ''Karim'' @ connector @ ascii ''Ahmed''
              @ connector @ ascii ''Salma'',
            out_collective_title = [BEH] @ honorific_male_dual @ [SP]
              @ ascii ''Karim'' @ connector @ ascii ''Ahmed''
              @ connector @ gender_female @ [SP] @ ascii ''Salma''\<rparr>"
    by (simp add: sample_defs resolver_defs dictionary_defs string_defs)
  have d: "groupDocument [sample, sample_boss_roster, sample_f] sample_group =
       Inr \<lparr>doc_workLocation = Val (ascii ''court''), doc_division = Val (ascii ''civil''),
            doc_employees = [sample_boss, sample, sample_f],
            doc_responsibilityLine = gender_male @ [SP] @ [QAF, ALEF, DAD, YEH],
            doc_processedData =
              \<lparr>out_city = Val (ascii ''Rabat''),
               out_maleCollectiveTitle = [BEH] @ honorific_male_dual @ [SP]
                 @ ascii ''Karim'' @ connector @ ascii ''Ahmed'',
               out_femaleCollectiveTitle = connector @ gender_female @ [SP] @ ascii ''Salma'',
               out_computedVar = pronoun_male_plural,
               out_combinedJobTitle = [ALEF, LAM, QAF, DAD, ALEF, TEH_MARBUTA, SP, BEH],
               out_invitees_names = ascii ''Karim'' @ connector @ ascii ''Ahmed''
                 @ connector @ ascii ''Salma'',
               out_collective_title = [BEH] @ honorific_male_dual @ [SP]
                 @ ascii ''Karim'' @ connector @ ascii ''Ahmed''
                 @ connector @ gender_female @ [SP] @ ascii ''Salma''\<rparr>\<rparr>"
    apply (simp only: groupDocument_def boss_roster_found sum.case f p)
    apply (simp add: sample_defs responsibilityLine_def templateStr_def)
    done
  show ?thesis
    using i d by blast
qed

subsection \<open>C9: the partition\<close>

text \<open>
  Claim C9. The partition puts every employee into exactly one group, keeps the
  order of the invited list inside a group, and puts two employees into the same
  group exactly when their (workLocation, division, city) keys are equal. The
  first two parts hold, and the third holds for the key strings
  (\<open>groupedEmployees_members\<close>, \<open>same_group_iff_same_key\<close>), and for the three
  components as long as none contains an underscore (\<open>groupKey_injective\<close>). It
  fails in general: the key is the three components joined by underscores, so the
  two sample employees, with different identifiers, work locations and divisions,
  get the same key and are put into one group, under the first one's work location
  and division.
\<close>

theorem groupKey_collision:
  "groupedEmployees [sample_ab, sample_bc] =
     Inr [(ascii ''a_b_c_Rabat'',
           \<lparr>g_workLocation = Val (ascii ''a_b''), g_division = Val (ascii ''c''),
            g_city = Val (ascii ''Rabat''), g_employees = [sample_ab, sample_bc]\<rparr>)]
   \<and> employeeId sample_ab \<noteq> employeeId sample_bc
   \<and> workLocation sample_ab = Val (ascii ''a_b'') \<and> workLocation sample_bc = Val (ascii ''a'')
   \<and> division sample_ab = Val (ascii ''c'') \<and> division sample_bc = Val (ascii ''b_c'')
   \<and> ascii ''a_b'' \<noteq> ascii ''a'' \<and> ascii ''c'' \<noteq> ascii ''b_c''"
  by (simp add: sample_defs grouping_defs dictionary_defs string_defs Let_def)

subsection \<open>C10: members with an unrecognised gender\<close>

text \<open>
  Claim C10. Let a group for which the resolver returns contain an employee whose
  gender field is neither sentinel. The employee is in neither gender partition,
  and the two segments and the collective title are those of the group without
  the employee. The employee's name is part of the invitee names, which join the
  names of all members. The employee counts for the agreement: a group of this one
  employee gets the feminine singular pronoun, an empty collective title and, for
  a title of the dictionary, the feminine singular form; a group of two gets the
  (masculine) dual pronoun and form; a larger group gets the plural ones, masculine
  when a male is present and feminine otherwise.
\<close>

theorem unrecognised_gender_member:
  assumes "e \<in> set employees"
    and "gender e \<noteq> Val gender_male" and "gender e \<noteq> Val gender_female"
    and "processGroupData employees = Inr r"
  shows "e \<notin> set (males employees) \<and> e \<notin> set (females employees)
       \<and> out_maleCollectiveTitle r = maleCollectiveTitle (removeAll e employees)
       \<and> out_femaleCollectiveTitle r = femaleCollectiveTitle (removeAll e employees)
       \<and> out_collective_title r = collective_title (removeAll e employees)
       \<and> out_invitees_names r = join connector (map (\<lambda>x. joinStr (fullName x)) employees)
       \<and> includes_str (out_invitees_names r) (joinStr (fullName e))
       \<and> (length employees = 1 \<longrightarrow>
            out_computedVar r = pronoun_female_singular \<and> out_collective_title r = [])
       \<and> (length employees = 2 \<longrightarrow> out_computedVar r = pronoun_male_dual)
       \<and> (length employees > 2 \<longrightarrow>
            out_computedVar r =
              (if \<exists>x\<in>set employees. gender x = Val gender_male then pronoun_male_plural
               else pronoun_female_plural))
       \<and> (\<forall>e0 rest grammarSet.
            employees = e0 # rest \<and> map_of jobTitleGrammar (root_of e0) = Some grammarSet \<longrightarrow>
            out_combinedJobTitle r =
              (if length employees = 1 then form_s (gram_f grammarSet)
               else if length employees = 2 then form_d (gram_m grammarSet)
               else if \<exists>x\<in>set employees. gender x = Val gender_male
                    then form_p (gram_m grammarSet)
               else form_p (gram_f grammarSet)))"
proof -
  note fields = processGroupData_fields [OF assms(4)]
  have rm: "males (removeAll e employees) = males employees"
    and rf: "females (removeAll e employees) = females employees"
    using assms(2,3) by (simp_all add: males_def females_def filter_removeAll_irrelevant)
  have parts: "e \<notin> set (males employees) \<and> e \<notin> set (females employees)"
    using assms(2,3) by (simp add: males_def females_def)
  have mt: "out_maleCollectiveTitle r = maleCollectiveTitle (removeAll e employees)"
    unfolding fields by (simp add: maleCollectiveTitle_def rm)
  have ft: "out_femaleCollectiveTitle r = femaleCollectiveTitle (removeAll e employees)"
    unfolding fields by (simp add: femaleCollectiveTitle_def rm rf)
  have ct: "out_collective_title r = collective_title (removeAll e employees)"
    using mt ft unfolding fields by (simp add: collective_title_def)
  have nm: "out_invitees_names r = join connector (map (\<lambda>x. joinStr (fullName x)) employees)"
    unfolding fields by (simp add: invitees_names_def)
  have "joinStr (fullName e) \<in> set (map (\<lambda>x. joinStr (fullName x)) employees)"
    using assms(1) by auto
  then have inc: "includes_str (out_invitees_names r) (joinStr (fullName e))"
    unfolding nm includes_str_iff by (rule join_contains)
  have single: "length employees = 1 \<Longrightarrow> employees = [e]"
    using assms(1) by (cases employees) auto
  have pair: "length employees = 2 \<Longrightarrow>
      length (males employees) < 2 \<and> length (females employees) < 2"
  proof -
    assume "length employees = 2"
    then obtain a b where ab: "employees = [a, b]"
      by (cases employees; cases "tl employees") auto
    then have "e = a \<or> e = b" using assms(1) by auto
    then show ?thesis using assms(2,3) ab by (auto simp: males_def females_def)
  qed
  have one: "length employees = 1 \<longrightarrow>
            out_computedVar r = pronoun_female_singular \<and> out_collective_title r = []"
  proof
    assume "length employees = 1"
    then have "employees = [e]" by (rule single)
    then show "out_computedVar r = pronoun_female_singular \<and> out_collective_title r = []"
      unfolding fields using assms(2,3)
      by (simp add: computedVar_def collective_title_def maleCollectiveTitle_def
          femaleCollectiveTitle_def males_def females_def)
  qed
  have two: "length employees = 2 \<longrightarrow> out_computedVar r = pronoun_male_dual"
    unfolding fields using pair by (auto simp: computedVar_def)
  have many: "length employees > 2 \<longrightarrow>
            out_computedVar r =
              (if \<exists>x\<in>set employees. gender x = Val gender_male then pronoun_male_plural
               else pronoun_female_plural)"
    unfolding fields computedVar_def Let_def males_nonempty_iff by simp
  have title: "\<forall>e0 rest grammarSet.
            employees = e0 # rest \<and> map_of jobTitleGrammar (root_of e0) = Some grammarSet \<longrightarrow>
            out_combinedJobTitle r =
              (if length employees = 1 then form_s (gram_f grammarSet)
               else if length employees = 2 then form_d (gram_m grammarSet)
               else if \<exists>x\<in>set employees. gender x = Val gender_male
                    then form_p (gram_m grammarSet)
               else form_p (gram_f grammarSet))"
  proof (intro allI impI)
    fix e0 rest grammarSet
    assume h: "employees = e0 # rest \<and> map_of jobTitleGrammar (root_of e0) = Some grammarSet"
    then have own: "getProp jobTitleGrammar (root_of e0) = Own grammarSet"
      by (simp add: getProp_Own_iff)
    have cj: "combinedJobTitle employees = Inr (out_combinedJobTitle r)"
      by (rule fields)
    have m1: "length employees = 1 \<Longrightarrow> length (males employees) \<noteq> 1"
      using single assms(2) by (auto simp: males_def)
    have f2: "length employees = 2 \<Longrightarrow> length (females employees) \<noteq> 2"
      using pair by auto
    have "Inr (out_combinedJobTitle r) = (Inr
              (if length employees = 1 then form_s (gram_f grammarSet)
               else if length employees = 2 then form_d (gram_m grammarSet)
               else if \<exists>x\<in>set employees. gender x = Val gender_male
                    then form_p (gram_m grammarSet)
               else form_p (gram_f grammarSet)) :: error + jsstring)"
      unfolding cj [symmetric] combinedJobTitle_Own [OF conjunct1 [OF h] own] males_nonempty_iff
      using m1 f2 by presburger
    then show "out_combinedJobTitle r =
              (if length employees = 1 then form_s (gram_f grammarSet)
               else if length employees = 2 then form_d (gram_m grammarSet)
               else if \<exists>x\<in>set employees. gender x = Val gender_male
                    then form_p (gram_m grammarSet)
               else form_p (gram_f grammarSet))"
      by simp
  qed
  show ?thesis
    using parts mt ft ct nm inc one two many title by blast
qed

theorem unrecognised_gender_member_witness:
  "sample_x \<in> set [sample_x]
   \<and> gender sample_x \<noteq> Val gender_male \<and> gender sample_x \<noteq> Val gender_female
   \<and> (\<exists>r. processGroupData [sample_x] = Inr r
          \<and> out_computedVar r = pronoun_female_singular
          \<and> out_collective_title r = []
          \<and> out_combinedJobTitle r = [ALEF, LAM, QAF, ALEF, DAD, YEH, TEH_MARBUTA, SP, BEH]
          \<and> includes_str (out_invitees_names r) (ascii ''Sam''))"
proof -
  have h1: "sample_x \<in> set [sample_x]" by simp
  have h2: "gender sample_x \<noteq> Val gender_male" and h3: "gender sample_x \<noteq> Val gender_female"
    by (simp_all add: sample_defs)
  obtain r where r: "processGroupData [sample_x] = Inr r"
    using x_result by blast
  note t = unrecognised_gender_member [OF h1 h2 h3 r]
  have g: "map_of jobTitleGrammar (root_of sample_x) =
     Some \<lparr>gram_m = \<lparr>form_s = [ALEF, LAM, QAF, ALEF, DAD, YEH, SP, BEH],
                      form_d = [ALEF, LAM, QAF, ALEF, DAD, YEH, YEH, NOON, SP, BEH],
                      form_p = [ALEF, LAM, QAF, DAD, ALEF, TEH_MARBUTA, SP, BEH]\<rparr>,
           gram_f = \<lparr>form_s = [ALEF, LAM, QAF, ALEF, DAD, YEH, TEH_MARBUTA, SP, BEH],
                      form_d = [ALEF, LAM, QAF, ALEF, DAD, YEH, TEH, YEH, NOON, SP, BEH],
                      form_p = [ALEF, LAM, QAF, ALEF, DAD, YEH, ALEF, TEH, SP, BEH]\<rparr>\<rparr>"
    unfolding sample_roots by (simp add: jobTitleGrammar_def)
  have n: "joinStr (fullName sample_x) = ascii ''Sam''"
    by (simp add: sample_defs joinStr_def)
  have l: "length [sample_x] = 1" by simp
  have a: "out_computedVar r = pronoun_female_singular \<and> out_collective_title r = []"
    using t l by blast
  have b: "includes_str (out_invitees_names r) (ascii ''Sam'')"
    using t unfolding n by blast
  have "\<forall>e0 rest grammarSet.
            [sample_x] = e0 # rest \<and> map_of jobTitleGrammar (root_of e0) = Some grammarSet \<longrightarrow>
            out_combinedJobTitle r =
              (if length [sample_x] = 1 then form_s (gram_f grammarSet)
               else if length [sample_x] = 2 then form_d (gram_m grammarSet)
               else if \<exists>x\<in>set [sample_x]. gender x = Val gender_male
                    then form_p (gram_m grammarSet)
               else form_p (gram_f grammarSet))"
    using t by blast
  then have c: "out_combinedJobTitle r = [ALEF, LAM, QAF, ALEF, DAD, YEH, TEH_MARBUTA, SP, BEH]"
    using g by simp
  show ?thesis
    using h1 h2 h3 r a b c by blast
qed

end
